theory Spec2Isabelle
  imports Main "HOL-Library.Sublist"
begin

section \<open>Data model of \<open>pkg/kube/client.go\<close>\<close>

text \<open>
  A Go \<open>string\<close> and a \<open>[]byte\<close> are byte sequences: both are \<open>char list\<close>.
  A Go \<open>error\<close> produced by \<open>errors.New\<close>, by \<open>fmt.Errorf\<close> or by one of the
  external collaborators is observed by this file only through its \<open>Error()\<close> text
  (the \<open>%v\<close> verb), so it is modelled by that text.
\<close>

type_synonym bytes = string
type_synonym error = string
type_synonym addr = nat

text \<open>A Go call returns, or it stops with a run-time panic.\<close>

datatype 'a outcome = Panic string | Done 'a

text \<open>A value of type \<open>map[string]string\<close> is nil (\<open>None\<close>) or a map. Indexing a nil map
  finds no entry, ranging over it visits nothing, and assigning to an entry of it
  panics.\<close>

type_synonym gomap = "(string \<rightharpoonup> string) option"

definition map_index :: "gomap \<Rightarrow> string \<Rightarrow> string option" where
  "map_index m key = (case m of None \<Rightarrow> None | Some entries \<Rightarrow> entries key)"

definition map_assign :: "gomap \<Rightarrow> string \<Rightarrow> string \<Rightarrow> gomap outcome" where
  "map_assign m key v =
     (case m of
        None \<Rightarrow> Panic ''assignment to entry in nil map''
      | Some entries \<Rightarrow> Done (Some (entries(key \<mapsto> v))))"

definition map_range :: "gomap \<Rightarrow> (string \<rightharpoonup> string)" where
  "map_range m = (case m of None \<Rightarrow> Map.empty | Some entries \<Rightarrow> entries)"

text \<open>\<open>kubeApiCore.Pod\<close>, restricted to the fields the file reads.\<close>

record pod =
  Name :: string
  Namespace :: string
  Labels :: "string \<rightharpoonup> string"

text \<open>The \<open>client\<close> struct: the revision and the pointer to its \<open>rest.Config\<close>.
  The REST client, the client set and the factory are the external collaborators of
  record \<open>kube\<close> below.\<close>

record client =
  revision :: string
  config :: addr

text \<open>The request built by \<open>c.restClient.Get().Resource(..).Namespace(..)\<close> followed by
  one \<open>Param\<close> call per entry of the params map.\<close>

record list_request =
  req_resource :: string
  req_namespace :: string
  req_params :: "string \<rightharpoonup> string"

text \<open>What \<open>req.Do(ctx)\<close> followed by \<open>res.Into(list)\<close> can yield: a transport or API
  error (\<open>res.Error() != nil\<close>), a decoding error of \<open>Into\<close>, or the pod list.\<close>

datatype list_result = DoError error | IntoError error | PodList "pod list"

text \<open>The request built by \<open>proxyGet(name, namespace, path, port)\<close>.\<close>

record proxy_request =
  proxy_name :: string
  proxy_namespace :: string
  proxy_path :: string
  proxy_port :: nat

text \<open>The external collaborators: the label constant \<open>label.IstioRev\<close> of
  \<open>istio.io/api\<close>, the pod-list query, the raw proxy request, and the \<open>%q\<close> verb of
  \<open>fmt\<close>.\<close>

record kube =
  IstioRev :: string
  Do :: "list_request \<Rightarrow> list_result"
  DoRaw :: "proxy_request \<Rightarrow> error + bytes"
  Quote :: "string \<Rightarrow> string"

section \<open>\<open>GetIstioPods\<close>\<close>

text \<open>Lines 341-348: the params map after the revision has been merged in. The lookup
  \<open>labelSelector, ok := params["labelSelector"]\<close> is \<open>map_index\<close>, the two assignments
  are \<open>map_assign\<close>: on a nil map the lookup finds nothing and the assignment of line
  346 panics. The Go code writes into the caller's map; the model returns the map
  the query is built from.\<close>

definition GetIstioPods_params :: "kube \<Rightarrow> client \<Rightarrow> gomap \<Rightarrow> gomap outcome" where
  "GetIstioPods_params k c params =
     (if revision c \<noteq> [] then
        (case map_index params ''labelSelector'' of
           Some labelSelector \<Rightarrow>
             map_assign params ''labelSelector''
               (labelSelector @ '','' @ IstioRev k @ ''='' @ revision c)
         | None \<Rightarrow>
             map_assign params ''labelSelector'' (IstioRev k @ ''='' @ revision c))
      else Done params)"

text \<open>Lines 350-355: the request that is issued, with one parameter for every entry
  the range over the map visits.\<close>

definition GetIstioPods_req :: "string \<Rightarrow> gomap \<Rightarrow> list_request" where
  "GetIstioPods_req namespace params =
     \<lparr>req_resource = ''pods'', req_namespace = namespace, req_params = map_range params\<rparr>"

text \<open>Lines 358-365: what the caller gets for each outcome of the query. The second
  error message formats \<open>res.Error()\<close>, which is nil on that path, so \<open>%v\<close> prints
  \<open><nil>\<close>.\<close>

definition list_outcome :: "list_result \<Rightarrow> error + pod list" where
  "list_outcome r =
     (case r of
        DoError e \<Rightarrow> Inl (''unable to retrieve Pods: '' @ e)
      | IntoError e \<Rightarrow> Inl ''unable to parse PodList: <nil>''
      | PodList items \<Rightarrow> Inr items)"

definition GetIstioPods :: "kube \<Rightarrow> client \<Rightarrow> string \<Rightarrow> gomap \<Rightarrow> (error + pod list) outcome" where
  "GetIstioPods k c namespace params =
     (case GetIstioPods_params k c params of
        Panic msg \<Rightarrow> Panic msg
      | Done merged \<Rightarrow> Done (list_outcome (Do k (GetIstioPods_req namespace merged))))"

section \<open>\<open>proxyGet\<close> and \<open>AllDiscoveryDo\<close>\<close>

definition proxyGet :: "string \<Rightarrow> string \<Rightarrow> string \<Rightarrow> nat \<Rightarrow> proxy_request" where
  "proxyGet name namespace path port =
     \<lparr>proxy_name = name, proxy_namespace = namespace, proxy_path = path, proxy_port = port\<rparr>"

text \<open>The loop of lines 298-306. \<open>result\<close> is the map under construction; \<open>sent\<close> records,
  in order, the proxy requests handed to \<open>DoRaw\<close>. The loop returns from inside at the
  first error of \<open>DoRaw\<close>.\<close>

fun AllDiscoveryDo_loop ::
  "kube \<Rightarrow> string \<Rightarrow> pod list \<Rightarrow> (string \<rightharpoonup> bytes) \<Rightarrow> proxy_request list
     \<Rightarrow> (error + (string \<rightharpoonup> bytes)) \<times> proxy_request list" where
  "AllDiscoveryDo_loop k path [] result sent = (Inr result, sent)"
| "AllDiscoveryDo_loop k path (pilot # pilots) result sent =
     (let rq = proxyGet (Name pilot) (Namespace pilot) path 8080 in
      case DoRaw k rq of
        Inl err \<Rightarrow> (Inl err, sent @ [rq])
      | Inr res \<Rightarrow>
          AllDiscoveryDo_loop k path pilots
            (if length res > 0 then result(Name pilot \<mapsto> res) else result) (sent @ [rq]))"

definition AllDiscoveryDo ::
  "kube \<Rightarrow> client \<Rightarrow> string \<Rightarrow> string
     \<Rightarrow> ((error + (string \<rightharpoonup> bytes)) \<times> proxy_request list) outcome" where
  "AllDiscoveryDo k c pilotNamespace path =
     (case GetIstioPods k c pilotNamespace
             (Some [''labelSelector'' \<mapsto> ''app=istiod'',
                    ''fieldSelector'' \<mapsto> ''status.phase=Running'']) of
        Panic msg \<Rightarrow> Panic msg
      | Done (Inl err) \<Rightarrow> Done (Inl err, [])
      | Done (Inr pilots) \<Rightarrow>
          if length pilots = 0 then Done (Inl ''unable to find any Pilot instances'', [])
          else Done (AllDiscoveryDo_loop k path pilots Map.empty []))"

section \<open>\<open>GetIstioVersions\<close>\<close>

text \<open>\<open>version.BuildInfo\<close>, \<open>version.ServerInfo\<close> and \<open>version.MeshInfo\<close> of
  \<open>istio.io/pkg/version\<close>.\<close>

record BuildInfo =
  Version :: string
  GitRevision :: string
  GolangVersion :: string
  BuildStatus :: string
  GitTag :: string

record ServerInfo =
  Component :: string
  Info :: BuildInfo

type_synonym MeshInfo = "ServerInfo list"

definition BuildInfo_zero :: BuildInfo where
  "BuildInfo_zero =
     \<lparr>Version = [], GitRevision = [], GolangVersion = [], BuildStatus = [], GitTag = []\<rparr>"

text \<open>\<open>strings.Split(s, sep)\<close> for a one-byte separator: the pieces between the
  occurrences of \<open>sep\<close>, one more piece than there are occurrences.\<close>

fun strings_Split :: "string \<Rightarrow> char \<Rightarrow> string list" where
  "strings_Split [] sep = [[]]"
| "strings_Split (x # xs) sep =
     (if x = sep then [] # strings_Split xs sep
      else (case strings_Split xs sep of
              [] \<Rightarrow> [[x]]
            | p # ps \<Rightarrow> (x # p) # ps))"

text \<open>\<open>strings.Join(elems, sep)\<close>.\<close>

fun strings_Join :: "string list \<Rightarrow> string \<Rightarrow> string" where
  "strings_Join [] sep = []"
| "strings_Join [e] sep = e"
| "strings_Join (e # es) sep = e @ sep @ strings_Join es sep"

text \<open>Lines 394-403: the fields of \<open>server.Info\<close> set from a version payload.\<close>

definition parse_version :: "ServerInfo \<Rightarrow> bytes \<Rightarrow> ServerInfo" where
  "parse_version server result =
     (let versionParts = strings_Split result CHR ''-'';
          nParts = length versionParts
      in if nParts \<ge> 3 then
           server\<lparr>Info := (Info server)
             \<lparr>Version := strings_Join (take (nParts - 2) versionParts) ''-'',
              GitTag := strings_Join (take (nParts - 2) versionParts) ''-'',
              GitRevision := versionParts ! (nParts - 2),
              BuildStatus := versionParts ! (nParts - 1)\<rparr>\<rparr>
         else server\<lparr>Info := (Info server)\<lparr>Version := result\<rparr>\<rparr>)"

text \<open>The error value of \<open>GetIstioVersions\<close>: a plain error, or the \<open>*multierror.Error\<close>
  of \<open>github.com/hashicorp/go-multierror\<close> with the errors it wraps, in order.\<close>

datatype go_error = Plain error | MultiError "error list"

text \<open>\<open>multierror.Append(err, e)\<close> for a plain error \<open>e\<close>: a nil \<open>err\<close> starts a new
  list, a multi-error is extended, any other error becomes the first element.\<close>

fun multierror_Append :: "go_error option \<Rightarrow> error \<Rightarrow> go_error" where
  "multierror_Append None e = MultiError [e]"
| "multierror_Append (Some (MultiError es)) e = MultiError (es @ [e])"
| "multierror_Append (Some (Plain e0)) e = MultiError [e0, e]"

text \<open>\<open>pod.Labels["istio"]\<close>: a missing key reads as the empty string.\<close>

definition label_istio :: "pod \<Rightarrow> string" where
  "label_istio p = (case Labels p ''istio'' of None \<Rightarrow> [] | Some v \<Rightarrow> v)"

text \<open>The loop of lines 382-408, with its variables \<open>errs\<close> and \<open>res\<close>; \<open>sent\<close>
  records the proxy requests handed to \<open>DoRaw\<close>.\<close>

fun GetIstioVersions_loop ::
  "kube \<Rightarrow> pod list \<Rightarrow> go_error option \<Rightarrow> MeshInfo \<Rightarrow> proxy_request list
     \<Rightarrow> MeshInfo \<times> go_error option \<times> proxy_request list" where
  "GetIstioVersions_loop k [] errs res sent = (res, errs, sent)"
| "GetIstioVersions_loop k (p # pods) errs res sent =
     (let component = label_istio p;
          server = \<lparr>Component = component, Info = BuildInfo_zero\<rparr>;
          rq = proxyGet (Name p) (Namespace p) ''/version'' 15014
      in case DoRaw k rq of
           Inl err \<Rightarrow>
             GetIstioVersions_loop k pods
               (Some (multierror_Append errs
                  (''error port-forewarding into '' @ Name p @ '' : '' @ err)))
               res (sent @ [rq])
         | Inr result \<Rightarrow>
             if length result > 0
             then GetIstioVersions_loop k pods errs (res @ [parse_version server result]) (sent @ [rq])
             else GetIstioVersions_loop k pods errs res (sent @ [rq]))"

text \<open>The function returns a \<open>*version.MeshInfo\<close> and an \<open>error\<close>; after the loop both
  can be non-nil at once, so the result is a pair of options (\<open>None\<close> is nil).\<close>

definition GetIstioVersions ::
  "kube \<Rightarrow> client \<Rightarrow> string
     \<Rightarrow> ((MeshInfo option \<times> go_error option) \<times> proxy_request list) outcome" where
  "GetIstioVersions k c namespace =
     (case GetIstioPods k c namespace
             (Some [''labelSelector'' \<mapsto> ''istio,istio!=ingressgateway,istio!=egressgateway,istio!=ilbgateway'',
                    ''fieldSelector'' \<mapsto> ''status.phase=Running'']) of
        Panic msg \<Rightarrow> Panic msg
      | Done (Inl err) \<Rightarrow> Done ((None, Some (Plain err)), [])
      | Done (Inr pods) \<Rightarrow>
          if length pods = 0
          then Done ((None, Some (Plain (''no running Istio pods in '' @ Quote k namespace))), [])
          else (case GetIstioVersions_loop k pods None [] [] of
                  (res, errs, sent) \<Rightarrow> Done ((Some res, errs), sent)))"

section \<open>\<open>EnvoyDo\<close>\<close>

text \<open>The \<open>PortForwarder\<close> returned by \<open>newPortForwarder\<close>: the outcome of its \<open>Start\<close>
  and the local address it reports. \<open>Close\<close> returns nothing.\<close>

record port_forwarder =
  Start :: "error option"
  Address :: string

text \<open>The arguments of \<open>http.NewRequest\<close>: method, URL and body (\<open>None\<close> is a nil
  body). The response is read through \<open>ioutil.ReadAll(resp.Body)\<close>.\<close>

record http_request =
  http_method :: string
  http_url :: string
  http_body :: "bytes option"

record http_response =
  ReadAll :: "error + bytes"

text \<open>The collaborators of the tunnel mode: \<open>newPortForwarder\<close> of this package,
  \<open>http.NewRequest\<close> (which can reject its arguments) and \<open>http.DefaultClient.Do\<close>.\<close>

record net =
  newPortForwarder :: "addr \<Rightarrow> string \<Rightarrow> string \<Rightarrow> string \<Rightarrow> nat \<Rightarrow> nat \<Rightarrow> error + port_forwarder"
  http_NewRequest :: "http_request \<Rightarrow> error option"
  http_Do :: "http_request \<Rightarrow> error + http_response"

text \<open>What \<open>EnvoyDo\<close> does to the tunnel and to the network, in the order it happens.\<close>

datatype event = FwStarted | FwStartFailed | FwClosed | HttpDo http_request | BodyRead | BodyClosed

definition formatError :: "error \<Rightarrow> error" where
  "formatError err = ''failure running port forward process: '' @ err"

definition NewPortForwarder ::
  "net \<Rightarrow> client \<Rightarrow> string \<Rightarrow> string \<Rightarrow> string \<Rightarrow> nat \<Rightarrow> nat \<Rightarrow> error + port_forwarder" where
  "NewPortForwarder n c podName ns localAddress localPort podPort =
     newPortForwarder n (config c) podName ns localAddress localPort podPort"

text \<open>Lines 332-337, the part that runs after \<open>defer closeQuietly(resp.Body)\<close>.\<close>

definition EnvoyDo_read :: "http_response \<Rightarrow> (error + bytes) \<times> event list" where
  "EnvoyDo_read resp =
     (case ReadAll resp of
        Inl err \<Rightarrow> (Inl (formatError err), [BodyRead])
      | Inr out \<Rightarrow> (Inr out, [BodyRead]))"

text \<open>Lines 323-337, the part that runs after \<open>defer fw.Close()\<close>. The deferred
  \<open>closeQuietly(resp.Body)\<close> runs when the part after it returns.\<close>

definition EnvoyDo_request :: "net \<Rightarrow> port_forwarder \<Rightarrow> string \<Rightarrow> string \<Rightarrow> (error + bytes) \<times> event list" where
  "EnvoyDo_request n fw method path =
     (let req = \<lparr>http_method = method,
                 http_url = ''http://'' @ Address fw @ ''/'' @ path,
                 http_body = None\<rparr>
      in case http_NewRequest n req of
           Some err \<Rightarrow> (Inl (formatError err), [])
         | None \<Rightarrow>
             (case http_Do n req of
                Inl err \<Rightarrow> (Inl (formatError err), [HttpDo req])
              | Inr resp \<Rightarrow>
                  (case EnvoyDo_read resp of
                     (r, evs) \<Rightarrow> (r, [HttpDo req] @ evs @ [BodyClosed]))))"

text \<open>Lines 310-338. The last parameter is the \<open>[]byte\<close> body, which the Go signature
  names \<open>_\<close>. The deferred \<open>fw.Close()\<close> runs when the part after it returns.\<close>

definition EnvoyDo ::
  "net \<Rightarrow> client \<Rightarrow> string \<Rightarrow> string \<Rightarrow> string \<Rightarrow> string \<Rightarrow> bytes \<Rightarrow> (error + bytes) \<times> event list" where
  "EnvoyDo n c podName podNamespace method path body =
     (case NewPortForwarder n c podName podNamespace ''127.0.0.1'' 0 15000 of
        Inl err \<Rightarrow> (Inl err, [])
      | Inr fw \<Rightarrow>
          (case Start fw of
             Some err \<Rightarrow> (Inl (formatError err), [FwStartFailed])
           | None \<Rightarrow>
               (case EnvoyDo_request n fw method path of
                  (r, evs) \<Rightarrow> (r, [FwStarted] @ evs @ [FwClosed]))))"

section \<open>\<open>PodExec\<close>\<close>

text \<open>The exec request of lines 208-221 and the collaborators of the exec mode:
  \<open>strings.Fields\<close>, \<open>roundTripperFor\<close> of this package,
  \<open>remotecommand.NewSPDYExecutorForTransports\<close>, and \<open>exec.Stream\<close>, which
  fills the two buffers and returns an error or nil.\<close>

record exec_request =
  exec_podName :: string
  exec_podNamespace :: string
  exec_container :: string
  exec_command :: "string list"

record spdy =
  Fields :: "string \<Rightarrow> string list"
  roundTripperFor :: "addr \<Rightarrow> error option"
  NewSPDYExecutor :: "exec_request \<Rightarrow> error option"
  Stream :: "exec_request \<Rightarrow> string \<times> string \<times> error option"

text \<open>The text \<open>error exec'ing into %s/%s %s container: \<close> that both \<open>fmt.Errorf\<close>
  calls of the deferred function start with.\<close>

definition exec_prefix :: "string \<Rightarrow> string \<Rightarrow> string \<Rightarrow> string" where
  "exec_prefix podName podNamespace container =
     ''error exec'' @ [CHR 0x27] @ ''ing into '' @ podName @ ''/'' @ podNamespace @ '' ''
       @ container @ '' container: ''"

text \<open>Lines 196-205, the deferred function, on the named results
  \<open>(stdout, stderr, err)\<close>. The second \<open>fmt.Errorf\<close> is not in an else branch: it
  wraps whatever \<open>err\<close> is after the first.\<close>

definition PodExec_deferred ::
  "string \<Rightarrow> string \<Rightarrow> string \<Rightarrow> string \<times> string \<times> error option \<Rightarrow> string \<times> string \<times> error option" where
  "PodExec_deferred podName podNamespace container r =
     (case r of (stdout, stderr, err) \<Rightarrow>
        (case err of
           None \<Rightarrow> (stdout, stderr, None)
         | Some e \<Rightarrow>
             (let e1 = (if length stderr > 0
                        then exec_prefix podName podNamespace container @ e @ [CHR 0x0A] @ stderr
                        else e);
                  e2 = exec_prefix podName podNamespace container @ e1
              in (stdout, stderr, Some e2))))"

text \<open>Lines 207-242, the body up to its \<open>return\<close> statements.\<close>

definition PodExec_body ::
  "spdy \<Rightarrow> client \<Rightarrow> string \<Rightarrow> string \<Rightarrow> string \<Rightarrow> string \<Rightarrow> string \<times> string \<times> error option" where
  "PodExec_body s c podName podNamespace container command =
     (let req = \<lparr>exec_podName = podName, exec_podNamespace = podNamespace,
                 exec_container = container, exec_command = Fields s command\<rparr>
      in case roundTripperFor s (config c) of
           Some err \<Rightarrow> ([], [], Some err)
         | None \<Rightarrow>
             (case NewSPDYExecutor s req of
                Some err \<Rightarrow> ([], [], Some err)
              | None \<Rightarrow>
                  (case Stream s req of
                     (stdoutBuf, stderrBuf, err) \<Rightarrow> (stdoutBuf, stderrBuf, err))))"

definition PodExec ::
  "spdy \<Rightarrow> client \<Rightarrow> string \<Rightarrow> string \<Rightarrow> string \<Rightarrow> string \<Rightarrow> string \<times> string \<times> error option" where
  "PodExec s c podName podNamespace container command =
     PodExec_deferred podName podNamespace container
       (PodExec_body s c podName podNamespace container command)"

section \<open>\<open>RESTConfig\<close>\<close>

text \<open>\<open>rest.Config\<close> of \<open>k8s.io/client-go\<close>, restricted to one field held by value,
  \<open>Host\<close>, and one field held by reference, the byte slice \<open>TLSClientConfig.CAData\<close>.
  A slice value is the address of its backing array and its length (the slices here
  start at the first element of their array; a nil slice has length 0).\<close>

record slice =
  slice_array :: addr
  slice_len :: nat

record Config =
  Host :: string
  CAData :: slice

text \<open>The heap: the \<open>rest.Config\<close> objects and the backing arrays of byte slices. The
  object at address \<open>a\<close> is the \<open>a\<close>-th element, and a new object takes the next
  address. An address outside the heap stands for a nil pointer.\<close>

record heap =
  configs :: "Config list"
  arrays :: "bytes list"

text \<open>Lines 165-168: \<open>cpy := *c.config; return &cpy\<close>. The struct is copied field by
  field into a new object, so the slice field of the copy has the backing array of the
  original. Dereferencing a nil pointer panics.\<close>

definition RESTConfig :: "client \<Rightarrow> heap \<Rightarrow> (addr \<times> heap) outcome" where
  "RESTConfig c h =
     (if config c < length (configs h)
      then Done (length (configs h), h\<lparr>configs := configs h @ [configs h ! config c]\<rparr>)
      else Panic ''invalid memory address or nil pointer dereference'')"

text \<open>What a caller can do with the pointer \<open>p\<close> it got: assign a field held by value
  (\<open>p.Host = v\<close>), assign the slice field (\<open>p.TLSClientConfig.CAData = s\<close>), or assign an
  element through the slice (\<open>p.TLSClientConfig.CAData[i] = b\<close>), which writes into the
  backing array and panics when \<open>i\<close> is not below the length of the slice.\<close>

definition assign_Host :: "addr \<Rightarrow> string \<Rightarrow> heap \<Rightarrow> heap outcome" where
  "assign_Host p v h =
     (if p < length (configs h)
      then Done (h\<lparr>configs := (configs h)[p := (configs h ! p)\<lparr>Host := v\<rparr>]\<rparr>)
      else Panic ''invalid memory address or nil pointer dereference'')"

definition assign_CAData :: "addr \<Rightarrow> slice \<Rightarrow> heap \<Rightarrow> heap outcome" where
  "assign_CAData p s h =
     (if p < length (configs h)
      then Done (h\<lparr>configs := (configs h)[p := (configs h ! p)\<lparr>CAData := s\<rparr>]\<rparr>)
      else Panic ''invalid memory address or nil pointer dereference'')"

definition assign_CAData_index :: "addr \<Rightarrow> nat \<Rightarrow> char \<Rightarrow> heap \<Rightarrow> heap outcome" where
  "assign_CAData_index p i b h =
     (if p < length (configs h)
      then (let s = CAData (configs h ! p)
            in if i < slice_len s
               then Done (h\<lparr>arrays := (arrays h)[slice_array s := (arrays h ! slice_array s)[i := b]]\<rparr>)
               else Panic ''index out of range'')
      else Panic ''invalid memory address or nil pointer dereference'')"

text \<open>The bytes a slice holds, and the configuration an operation of the client reads
  through \<open>c.config\<close> (as \<open>roundTripperFor(c.config)\<close> and \<open>newPortForwarder(c.config, ..)\<close>
  do): the host and the bytes of the CA data.\<close>

definition slice_bytes :: "heap \<Rightarrow> slice \<Rightarrow> bytes" where
  "slice_bytes h s =
     (if slice_array s < length (arrays h) then take (slice_len s) (arrays h ! slice_array s)
      else [])"

definition client_config :: "client \<Rightarrow> heap \<Rightarrow> (string \<times> bytes) outcome" where
  "client_config c h =
     (if config c < length (configs h)
      then Done (Host (configs h ! config c), slice_bytes h (CAData (configs h ! config c)))
      else Panic ''invalid memory address or nil pointer dereference'')"

section \<open>Vocabulary of the statements\<close>

text \<open>The outcome of one proxy request, read three ways: whether it failed, the error
  it failed with, and the payload it succeeded with (empty when it failed).\<close>

definition probe_failed :: "kube \<Rightarrow> proxy_request \<Rightarrow> bool" where
  "probe_failed k rq = (case DoRaw k rq of Inl e \<Rightarrow> True | Inr res \<Rightarrow> False)"

definition probe_error :: "kube \<Rightarrow> proxy_request \<Rightarrow> error" where
  "probe_error k rq = (case DoRaw k rq of Inl e \<Rightarrow> e | Inr res \<Rightarrow> [])"

definition probe_payload :: "kube \<Rightarrow> proxy_request \<Rightarrow> bytes" where
  "probe_payload k rq = (case DoRaw k rq of Inl e \<Rightarrow> [] | Inr res \<Rightarrow> res)"

text \<open>The proxy requests of the two fan-outs for one pod.\<close>

definition discovery_request :: "string \<Rightarrow> pod \<Rightarrow> proxy_request" where
  "discovery_request path p = proxyGet (Name p) (Namespace p) path 8080"

definition version_request :: "pod \<Rightarrow> proxy_request" where
  "version_request p = proxyGet (Name p) (Namespace p) ''/version'' 15014"

text \<open>The parameters the two fan-outs resolve their pods with.\<close>

definition discovery_params :: "string \<rightharpoonup> string" where
  "discovery_params =
     [''labelSelector'' \<mapsto> ''app=istiod'', ''fieldSelector'' \<mapsto> ''status.phase=Running'']"

definition version_params :: "string \<rightharpoonup> string" where
  "version_params =
     [''labelSelector'' \<mapsto> ''istio,istio!=ingressgateway,istio!=egressgateway,istio!=ilbgateway'',
      ''fieldSelector'' \<mapsto> ''status.phase=Running'']"

text \<open>The entry \<open>GetIstioVersions\<close> appends for a pod whose probe returned a payload, and
  the error it records for a pod whose probe failed.\<close>

definition version_entry :: "kube \<Rightarrow> pod \<Rightarrow> ServerInfo" where
  "version_entry k p =
     parse_version \<lparr>Component = label_istio p, Info = BuildInfo_zero\<rparr>
       (probe_payload k (version_request p))"

definition version_failure :: "kube \<Rightarrow> pod \<Rightarrow> error" where
  "version_failure k p =
     ''error port-forewarding into '' @ Name p @ '' : '' @ probe_error k (version_request p)"

text \<open>The name and payload of every pod of a list that answered the discovery request
  with a non-empty payload, in the order of the list.\<close>

definition discovery_entries :: "kube \<Rightarrow> string \<Rightarrow> pod list \<Rightarrow> (string \<times> bytes) list" where
  "discovery_entries k path pods =
     map (\<lambda>p. (Name p, probe_payload k (discovery_request path p)))
       (filter (\<lambda>p. probe_payload k (discovery_request path p) \<noteq> []) pods)"

section \<open>A concrete cluster\<close>

definition pod_a :: pod where
  "pod_a = \<lparr>Name = ''istiod-a'', Namespace = ''istio-system'', Labels = [''istio'' \<mapsto> ''pilot'']\<rparr>"

definition pod_b :: pod where
  "pod_b = \<lparr>Name = ''istiod-b'', Namespace = ''istio-system'', Labels = [''istio'' \<mapsto> ''pilot'']\<rparr>"

definition pod_c :: pod where
  "pod_c = \<lparr>Name = ''istiod-c'', Namespace = ''istio-system'', Labels = Map.empty\<rparr>"

text \<open>A cluster that lists the given pods in namespace \<open>istio-system\<close> and answers
  proxy requests as \<open>raw\<close> says. Its \<open>%q\<close> is right for the plain names used here.\<close>

definition cluster :: "pod list \<Rightarrow> (proxy_request \<Rightarrow> error + bytes) \<Rightarrow> kube" where
  "cluster pods raw =
     \<lparr>IstioRev = ''istio.io/rev'',
      Do = (\<lambda>rq. if req_resource rq = ''pods'' \<and> req_namespace rq = ''istio-system''
                  then PodList pods else PodList []),
      DoRaw = raw,
      Quote = (\<lambda>s. [CHR 0x22] @ s @ [CHR 0x22])\<rparr>"

text \<open>A cluster whose pod list depends on the label selector of the query: it echoes
  the selector back as the name of the one pod it lists.\<close>

definition echo_cluster :: kube where
  "echo_cluster =
     \<lparr>IstioRev = ''istio.io/rev'',
      Do = (\<lambda>rq. case req_params rq ''labelSelector'' of
                    None \<Rightarrow> DoError ''no selector''
                  | Some l \<Rightarrow> PodList [\<lparr>Name = l, Namespace = req_namespace rq, Labels = Map.empty\<rparr>]),
      DoRaw = (\<lambda>rq. Inr []),
      Quote = (\<lambda>s. s)\<rparr>"

text \<open>Pod \<open>istiod-a\<close> refuses the connection, \<open>istiod-b\<close> answers with a version string,
  every other pod answers with an empty payload.\<close>

definition raw_mixed :: "proxy_request \<Rightarrow> error + bytes" where
  "raw_mixed rq =
     (if proxy_name rq = ''istiod-a'' then Inl ''connection refused''
      else if proxy_name rq = ''istiod-b'' then Inr ''1.7-alpha.9c900ba-9c900ba74d10a1-Clean''
      else Inr [])"

definition raw_all_fail :: "proxy_request \<Rightarrow> error + bytes" where
  "raw_all_fail rq = Inl (''no route to '' @ proxy_name rq)"

definition raw_all_ok :: "proxy_request \<Rightarrow> error + bytes" where
  "raw_all_ok rq = (if proxy_name rq = ''istiod-c'' then Inr [] else Inr (''pong '' @ proxy_name rq))"

definition canary :: client where
  "canary = \<lparr>revision = ''canary'', config = 0\<rparr>"

definition default_client :: client where
  "default_client = \<lparr>revision = [], config = 0\<rparr>"

text \<open>A heap with the configuration of the client at address 0; its CA data are the
  three bytes \<open>abc\<close>.\<close>

definition heap0 :: heap where
  "heap0 =
     \<lparr>configs = [\<lparr>Host = ''https://10.0.0.1:6443'', CAData = \<lparr>slice_array = 0, slice_len = 3\<rparr>\<rparr>],
      arrays = [''abc'']\<rparr>"

text \<open>A network in which the forwarder to pod \<open>missing\<close> cannot be created, every
  other forwarder starts as \<open>start\<close> says and listens on port 40000, request
  construction answers \<open>newreq\<close> and the request itself \<open>resp\<close>.\<close>

definition tunnel_net :: "error option \<Rightarrow> error option \<Rightarrow> error + http_response \<Rightarrow> net" where
  "tunnel_net start newreq resp =
     \<lparr>newPortForwarder = (\<lambda>cfg podName ns localAddress localPort podPort.
         if podName = ''missing'' then Inl ''pod not found''
         else Inr \<lparr>Start = start, Address = localAddress @ '':40000''\<rparr>),
      http_NewRequest = (\<lambda>rq. newreq),
      http_Do = (\<lambda>rq. resp)\<rparr>"

text \<open>An exec transport on which \<open>cat /missing\<close> fails with a message on stderr and
  every other command prints \<open>ok\<close>. Its \<open>Fields\<close> is right for single-spaced commands.\<close>

definition exec_net :: spdy where
  "exec_net =
     \<lparr>Fields = (\<lambda>command. strings_Split command CHR '' ''),
      roundTripperFor = (\<lambda>cfg. None),
      NewSPDYExecutor = (\<lambda>rq. None),
      Stream = (\<lambda>rq. if exec_command rq = [''cat'', ''/missing'']
                       then ([], ''cat: /missing: No such file or directory'',
                             Some ''command terminated with exit code 1'')
                       else (''ok'', [], None))\<rparr>"

section \<open>The query of \<open>GetIstioPods\<close> and the empty resolution\<close>

text \<open>On a params map that is not nil: with a non-empty revision \<open>R\<close> and a
  \<open>labelSelector\<close> entry \<open>L\<close> the query is issued with that entry replaced by
  \<open>L,<revision-label>=R\<close>, with no such entry it is issued with the entry
  \<open><revision-label>=R\<close>, and every other parameter is as given. With an empty revision
  the params, nil or not, reach the query unchanged.\<close>

lemma GetIstioPods_on_map:
  "(revision c \<noteq> [] \<and> m ''labelSelector'' = Some L \<longrightarrow>
      GetIstioPods k c ns (Some m) =
        Done (list_outcome (Do k \<lparr>req_resource = ''pods'', req_namespace = ns,
          req_params = m(''labelSelector'' \<mapsto> L @ '','' @ IstioRev k @ ''='' @ revision c)\<rparr>)))
   \<and> (revision c \<noteq> [] \<and> m ''labelSelector'' = None \<longrightarrow>
      GetIstioPods k c ns (Some m) =
        Done (list_outcome (Do k \<lparr>req_resource = ''pods'', req_namespace = ns,
          req_params = m(''labelSelector'' \<mapsto> IstioRev k @ ''='' @ revision c)\<rparr>)))
   \<and> (revision c = [] \<longrightarrow>
      GetIstioPods k c ns params =
        Done (list_outcome (Do k \<lparr>req_resource = ''pods'', req_namespace = ns,
          req_params = map_range params\<rparr>)))"
  by (simp add: GetIstioPods_def GetIstioPods_req_def GetIstioPods_params_def map_index_def
      map_assign_def map_range_def)

lemma GetIstioPods_on_map_example:
  "GetIstioPods echo_cluster canary ''istio-system'' (Some [''labelSelector'' \<mapsto> ''app=istiod''])
     = Done (Inr [\<lparr>Name = ''app=istiod,istio.io/rev=canary'', Namespace = ''istio-system'',
                   Labels = Map.empty\<rparr>])
   \<and> GetIstioPods echo_cluster canary ''istio-system''
       (Some [''fieldSelector'' \<mapsto> ''status.phase=Running''])
     = Done (Inr [\<lparr>Name = ''istio.io/rev=canary'', Namespace = ''istio-system'',
                   Labels = Map.empty\<rparr>])
   \<and> GetIstioPods echo_cluster default_client ''istio-system''
       (Some [''fieldSelector'' \<mapsto> ''status.phase=Running''])
     = Done (Inl ''unable to retrieve Pods: no selector'')"
  using GetIstioPods_on_map [of canary "[''labelSelector'' \<mapsto> ''app=istiod'']" "''app=istiod''"
          echo_cluster "''istio-system''"]
        GetIstioPods_on_map [of canary "[''fieldSelector'' \<mapsto> ''status.phase=Running'']" "''x''"
          echo_cluster "''istio-system''"]
        GetIstioPods_on_map [of default_client Map.empty "''x''" echo_cluster "''istio-system''"
          "Some [''fieldSelector'' \<mapsto> ''status.phase=Running'']"]
  by (simp add: canary_def default_client_def echo_cluster_def list_outcome_def map_range_def)

text \<open>On a nil params map and a non-empty revision no query is issued: the call panics.\<close>

lemma GetIstioPods_nil_map:
  "revision c \<noteq> [] \<Longrightarrow> GetIstioPods k c ns None = Panic ''assignment to entry in nil map''"
  by (simp add: GetIstioPods_def GetIstioPods_params_def map_index_def map_assign_def)

text \<open>
  C1. With a non-empty revision \<open>R\<close> and no \<open>labelSelector\<close> entry in the params map,
  the pod-list query is to be issued with \<open>labelSelector\<close> equal to
  \<open><revision-label>=R\<close>. A nil map has no \<open>labelSelector\<close> entry, and it is a value the
  exported method accepts. With revision \<open>canary\<close> the call on the nil map panics at the
  assignment of line 346, before any request is built, so no query is issued. With an
  empty revision the same nil map is passed through and the query is issued (here it
  is answered with an error by a cluster that insists on a selector).
\<close>

theorem GetIstioPods_nil_params_panic:
  "map_index None ''labelSelector'' = None
   \<and> GetIstioPods echo_cluster canary ''istio-system'' None
       = Panic ''assignment to entry in nil map''
   \<and> GetIstioPods echo_cluster default_client ''istio-system'' None
       = Done (Inl ''unable to retrieve Pods: no selector'')"
  by (simp add: GetIstioPods_def GetIstioPods_params_def GetIstioPods_req_def map_index_def
      map_assign_def map_range_def canary_def default_client_def echo_cluster_def list_outcome_def)

text \<open>A cluster with no pods: \<open>GetIstioPods\<close> succeeds with the empty list.\<close>

theorem GetIstioPods_empty_success_counterexample:
  "GetIstioPods (cluster [] raw_all_ok) default_client ''istio-system'' (Some discovery_params)
     = Done (Inr [])"
  by (simp add: GetIstioPods_def GetIstioPods_req_def GetIstioPods_params_def list_outcome_def
      cluster_def default_client_def)

text \<open>
  C2 (as the code has it). When the query matches zero pods, \<open>GetIstioPods\<close> returns the
  empty list as a success. The rejection is made by its two callers: \<open>AllDiscoveryDo\<close>
  fails with \<open>unable to find any Pilot instances\<close> and \<open>GetIstioVersions\<close> fails with
  \<open>no running Istio pods in <namespace>\<close>, each before any proxy request is sent.
\<close>

theorem empty_resolution_rejected_by_callers:
  "(GetIstioPods_params k c params = Done merged
      \<and> Do k (GetIstioPods_req ns merged) = PodList [] \<longrightarrow>
        GetIstioPods k c ns params = Done (Inr []))
   \<and> (GetIstioPods k c ns (Some discovery_params) = Done (Inr []) \<longrightarrow>
        AllDiscoveryDo k c ns path = Done (Inl ''unable to find any Pilot instances'', []))
   \<and> (GetIstioPods k c ns (Some version_params) = Done (Inr []) \<longrightarrow>
        GetIstioVersions k c ns =
          Done ((None, Some (Plain (''no running Istio pods in '' @ Quote k ns))), []))"
  by (simp add: GetIstioPods_def list_outcome_def AllDiscoveryDo_def GetIstioVersions_def
      discovery_params_def version_params_def)

theorem empty_resolution_rejected_by_callers_witness:
  "GetIstioPods (cluster [] raw_all_ok) default_client ''istio-system'' (Some discovery_params)
     = Done (Inr [])
   \<and> AllDiscoveryDo (cluster [] raw_all_ok) default_client ''istio-system'' ''/debug/syncz''
       = Done (Inl ''unable to find any Pilot instances'', [])
   \<and> GetIstioVersions (cluster [] raw_all_ok) default_client ''istio-system''
       = Done ((None, Some (Plain (''no running Istio pods in '' @ [CHR 0x22] @ ''istio-system''
                 @ [CHR 0x22]))), [])"
proof -
  let ?k = "cluster [] raw_all_ok"
  have m: "GetIstioPods_params ?k default_client params = Done params" for params
    by (simp add: GetIstioPods_params_def default_client_def)
  have d: "Do ?k (GetIstioPods_req ''istio-system'' params) = PodList []" for params
    by (simp add: cluster_def GetIstioPods_req_def)
  have g: "GetIstioPods ?k default_client ''istio-system'' params = Done (Inr [])" for params
    using empty_resolution_rejected_by_callers
            [of ?k default_client params params "''istio-system''"] m d
    by simp
  have q: "Quote ?k ''istio-system'' = [CHR 0x22] @ ''istio-system'' @ [CHR 0x22]"
    by (simp add: cluster_def)
  show ?thesis
    using empty_resolution_rejected_by_callers
            [of ?k default_client "Some discovery_params" "Some discovery_params"
                "''istio-system''" "''/debug/syncz''"]
      g q by simp
qed

section \<open>The outcome of a proxy request\<close>

lemma probe_cases:
  "DoRaw k rq = Inl e \<Longrightarrow> probe_failed k rq \<and> probe_error k rq = e \<and> probe_payload k rq = []"
  "DoRaw k rq = Inr res \<Longrightarrow> \<not> probe_failed k rq \<and> probe_error k rq = [] \<and> probe_payload k rq = res"
  by (simp_all add: probe_failed_def probe_error_def probe_payload_def)

lemma probe_not_failed: "\<not> probe_failed k rq \<Longrightarrow> DoRaw k rq = Inr (probe_payload k rq)"
  by (cases "DoRaw k rq") (simp_all add: probe_failed_def probe_payload_def)

lemma probe_failed_error: "probe_failed k rq \<Longrightarrow> DoRaw k rq = Inl (probe_error k rq)"
  by (cases "DoRaw k rq") (simp_all add: probe_failed_def probe_error_def)

section \<open>The loop of \<open>AllDiscoveryDo\<close>\<close>

lemma discovery_entries_Cons:
  "discovery_entries k path (p # ps) =
     (if probe_payload k (discovery_request path p) \<noteq> []
      then (Name p, probe_payload k (discovery_request path p)) # discovery_entries k path ps
      else discovery_entries k path ps)"
  by (simp add: discovery_entries_def)

lemma discovery_entries_Nil: "discovery_entries k path [] = []"
  by (simp add: discovery_entries_def)

lemma AllDiscoveryDo_loop_all_ok:
  "\<forall>p\<in>set pilots. \<not> probe_failed k (discovery_request path p) \<Longrightarrow>
   AllDiscoveryDo_loop k path pilots result sent =
     (Inr (result ++ map_of (rev (discovery_entries k path pilots))),
      sent @ map (discovery_request path) pilots)"
proof (induction pilots arbitrary: result sent)
  case Nil
  then show ?case by (simp add: discovery_entries_Nil)
next
  case (Cons p ps)
  let ?rq = "discovery_request path p"
  from Cons.prems have ok: "DoRaw k ?rq = Inr (probe_payload k ?rq)"
    by (simp add: probe_not_failed)
  from Cons.prems have rest: "\<forall>q\<in>set ps. \<not> probe_failed k (discovery_request path q)"
    by simp
  have rq: "proxyGet (Name p) (Namespace p) path 8080 = ?rq"
    by (simp add: discovery_request_def)
  have step: "AllDiscoveryDo_loop k path (p # ps) result sent =
      AllDiscoveryDo_loop k path ps
        (if probe_payload k ?rq \<noteq> [] then result(Name p \<mapsto> probe_payload k ?rq) else result)
        (sent @ [?rq])"
    using ok by (simp add: rq Let_def)
  show ?case
    unfolding step Cons.IH [OF rest]
    by (simp add: discovery_entries_Cons map_of_append)
qed

lemma AllDiscoveryDo_loop_first_failure:
  "\<forall>p\<in>set good. \<not> probe_failed k (discovery_request path p) \<Longrightarrow>
   DoRaw k (discovery_request path bad) = Inl e \<Longrightarrow>
   AllDiscoveryDo_loop k path (good @ bad # rest) result sent =
     (Inl e, sent @ map (discovery_request path) good @ [discovery_request path bad])"
proof (induction good arbitrary: result sent)
  case Nil
  then show ?case by (simp add: discovery_request_def)
next
  case (Cons p ps)
  let ?rq = "discovery_request path p"
  from Cons.prems have ok: "DoRaw k ?rq = Inr (probe_payload k ?rq)"
    by (simp add: probe_not_failed)
  have rq: "proxyGet (Name p) (Namespace p) path 8080 = ?rq"
    by (simp add: discovery_request_def)
  from Cons.prems have rest: "\<forall>q\<in>set ps. \<not> probe_failed k (discovery_request path q)"
    by simp
  show ?case
    using ok Cons.IH [OF rest Cons.prems(2)] by (simp add: rq)
qed

lemma AllDiscoveryDo_resolved:
  "GetIstioPods k c ns (Some discovery_params) = Done (Inr pilots) \<Longrightarrow> pilots \<noteq> [] \<Longrightarrow>
   AllDiscoveryDo k c ns path = Done (AllDiscoveryDo_loop k path pilots Map.empty [])"
  by (simp add: AllDiscoveryDo_def discovery_params_def)

text \<open>
  C3 (as the code has it). \<open>AllDiscoveryDo\<close> on a non-empty resolved set sends the proxy
  request to the pods in their resolved order and returns at the first request that
  fails: the result is that error alone, with no map, and no pod after the failing one
  is sent a request. Only when no request fails is every pod attempted, and the result
  is the map from pod name to payload over the non-empty payloads (a later pod of the
  same name overwrites an earlier one).
\<close>

theorem AllDiscoveryDo_stops_at_first_failure:
  assumes "GetIstioPods k c ns (Some discovery_params) = Done (Inr pilots)" and "pilots \<noteq> []"
  shows "(pilots = good @ bad # rest
          \<and> (\<forall>p\<in>set good. \<not> probe_failed k (discovery_request path p))
          \<and> DoRaw k (discovery_request path bad) = Inl e \<longrightarrow>
            AllDiscoveryDo k c ns path =
              Done (Inl e, map (discovery_request path) good @ [discovery_request path bad]))
         \<and> ((\<forall>p\<in>set pilots. \<not> probe_failed k (discovery_request path p)) \<longrightarrow>
            AllDiscoveryDo k c ns path =
              Done (Inr (map_of (rev (discovery_entries k path pilots))),
                    map (discovery_request path) pilots))"
proof (intro conjI impI)
  assume h: "pilots = good @ bad # rest
          \<and> (\<forall>p\<in>set good. \<not> probe_failed k (discovery_request path p))
          \<and> DoRaw k (discovery_request path bad) = Inl e"
  then have "AllDiscoveryDo_loop k path (good @ bad # rest) Map.empty [] =
     (Inl e, [] @ map (discovery_request path) good @ [discovery_request path bad])"
    by (intro AllDiscoveryDo_loop_first_failure) simp_all
  with h assms show "AllDiscoveryDo k c ns path =
              Done (Inl e, map (discovery_request path) good @ [discovery_request path bad])"
    by (simp add: AllDiscoveryDo_resolved)
next
  assume "\<forall>p\<in>set pilots. \<not> probe_failed k (discovery_request path p)"
  then have "AllDiscoveryDo_loop k path pilots Map.empty [] =
     (Inr (Map.empty ++ map_of (rev (discovery_entries k path pilots))),
      [] @ map (discovery_request path) pilots)"
    by (rule AllDiscoveryDo_loop_all_ok)
  with assms show "AllDiscoveryDo k c ns path =
              Done (Inr (map_of (rev (discovery_entries k path pilots))),
                    map (discovery_request path) pilots)"
    by (simp add: AllDiscoveryDo_resolved)
qed

lemma resolve_cluster:
  "GetIstioPods (cluster pods raw) default_client ''istio-system'' params = Done (Inr pods)"
  by (simp add: GetIstioPods_def GetIstioPods_params_def GetIstioPods_req_def list_outcome_def
      cluster_def default_client_def)

lemma DoRaw_cluster: "DoRaw (cluster pods raw) = raw"
  by (simp add: cluster_def)

text \<open>Pod \<open>istiod-a\<close> fails first; \<open>istiod-b\<close>, which would have answered, is never
  asked, and the caller gets the error and no map.\<close>

theorem AllDiscoveryDo_collect_all_counterexample:
  "GetIstioPods (cluster [pod_a, pod_b] raw_mixed) default_client ''istio-system''
       (Some discovery_params)
     = Done (Inr [pod_a, pod_b])
   \<and> DoRaw (cluster [pod_a, pod_b] raw_mixed) (discovery_request ''/debug/syncz'' pod_b)
     = Inr ''1.7-alpha.9c900ba-9c900ba74d10a1-Clean''
   \<and> AllDiscoveryDo (cluster [pod_a, pod_b] raw_mixed) default_client ''istio-system'' ''/debug/syncz''
     = Done (Inl ''connection refused'', [discovery_request ''/debug/syncz'' pod_a])
   \<and> discovery_request ''/debug/syncz'' pod_b \<notin> set [discovery_request ''/debug/syncz'' pod_a]"
proof -
  let ?k = "cluster [pod_a, pod_b] raw_mixed"
  have a: "DoRaw ?k (proxyGet (Name pod_a) (Namespace pod_a) ''/debug/syncz'' 8080)
      = Inl ''connection refused''"
    by (simp add: DoRaw_cluster raw_mixed_def proxyGet_def pod_a_def)
  have b: "DoRaw ?k (discovery_request ''/debug/syncz'' pod_b)
      = Inr ''1.7-alpha.9c900ba-9c900ba74d10a1-Clean''"
    by (simp add: DoRaw_cluster raw_mixed_def discovery_request_def proxyGet_def pod_b_def)
  have run: "AllDiscoveryDo ?k default_client ''istio-system'' ''/debug/syncz''
      = Done (Inl ''connection refused'', [discovery_request ''/debug/syncz'' pod_a])"
    unfolding AllDiscoveryDo_def resolve_cluster
    using a by (simp add: discovery_request_def)
  have ne: "discovery_request ''/debug/syncz'' pod_b \<noteq> discovery_request ''/debug/syncz'' pod_a"
    by (simp add: discovery_request_def proxyGet_def pod_a_def pod_b_def)
  show ?thesis
    unfolding run using b ne by (simp add: resolve_cluster)
qed

theorem AllDiscoveryDo_stops_at_first_failure_witness:
  "AllDiscoveryDo (cluster [pod_b, pod_a, pod_c] raw_mixed) default_client ''istio-system'' ''/debug/syncz''
     = Done (Inl ''connection refused'',
        [discovery_request ''/debug/syncz'' pod_b, discovery_request ''/debug/syncz'' pod_a])
   \<and> AllDiscoveryDo (cluster [pod_a, pod_c, pod_b] raw_all_ok) default_client ''istio-system'' ''/debug/syncz''
     = Done (Inr [''istiod-a'' \<mapsto> ''pong istiod-a'', ''istiod-b'' \<mapsto> ''pong istiod-b''],
        [discovery_request ''/debug/syncz'' pod_a, discovery_request ''/debug/syncz'' pod_c,
         discovery_request ''/debug/syncz'' pod_b])"
proof -
  let ?k1 = "cluster [pod_b, pod_a, pod_c] raw_mixed"
  let ?k2 = "cluster [pod_a, pod_c, pod_b] raw_all_ok"
  have 1: "[pod_b, pod_a, pod_c] = [pod_b] @ pod_a # [pod_c]
      \<and> (\<forall>p\<in>set [pod_b]. \<not> probe_failed ?k1 (discovery_request ''/debug/syncz'' p))
      \<and> DoRaw ?k1 (discovery_request ''/debug/syncz'' pod_a) = Inl ''connection refused''"
    by (simp add: DoRaw_cluster probe_failed_def raw_mixed_def discovery_request_def proxyGet_def
        pod_a_def pod_b_def)
  have 2: "\<forall>p\<in>set [pod_a, pod_c, pod_b]. \<not> probe_failed ?k2 (discovery_request ''/debug/syncz'' p)"
    by (simp add: DoRaw_cluster probe_failed_def raw_all_ok_def)
  have 3: "map_of (rev (discovery_entries ?k2 ''/debug/syncz'' [pod_a, pod_c, pod_b]))
      = [''istiod-a'' \<mapsto> ''pong istiod-a'', ''istiod-b'' \<mapsto> ''pong istiod-b'']"
    by (simp add: discovery_entries_def probe_payload_def DoRaw_cluster raw_all_ok_def
        discovery_request_def proxyGet_def pod_a_def pod_b_def pod_c_def)
  have r1: "AllDiscoveryDo ?k1 default_client ''istio-system'' ''/debug/syncz''
     = Done (Inl ''connection refused'',
        map (discovery_request ''/debug/syncz'') [pod_b] @ [discovery_request ''/debug/syncz'' pod_a])"
    using AllDiscoveryDo_stops_at_first_failure
            [of ?k1 default_client "''istio-system''" "[pod_b, pod_a, pod_c]" "[pod_b]" pod_a "[pod_c]"
                "''/debug/syncz''" "''connection refused''", OF resolve_cluster] 1
    by blast
  have r2: "AllDiscoveryDo ?k2 default_client ''istio-system'' ''/debug/syncz''
     = Done (Inr (map_of (rev (discovery_entries ?k2 ''/debug/syncz'' [pod_a, pod_c, pod_b]))),
        map (discovery_request ''/debug/syncz'') [pod_a, pod_c, pod_b])"
    using AllDiscoveryDo_stops_at_first_failure
            [of ?k2 default_client "''istio-system''" "[pod_a, pod_c, pod_b]" "[]" pod_a "[]"
                "''/debug/syncz''" "''x''", OF resolve_cluster] 2
    by blast
  show ?thesis
    unfolding r1 r2 3 by simp
qed

section \<open>Splitting and joining\<close>

lemma strings_Split_not_Nil: "strings_Split s sep \<noteq> []"
  by (induction s) (auto split: list.splits)

lemma strings_Split_Cons:
  "strings_Split (x # xs) sep =
     (if x = sep then [] # strings_Split xs sep
      else (x # hd (strings_Split xs sep)) # tl (strings_Split xs sep))"
  using strings_Split_not_Nil [of xs sep] by (cases "strings_Split xs sep") simp_all

lemma length_strings_Split: "length (strings_Split s sep) = Suc (count_list s sep)"
  by (induction s) (auto split: list.splits simp: strings_Split_not_Nil)

lemma strings_Split_no_sep: "seg \<in> set (strings_Split s sep) \<Longrightarrow> sep \<notin> set seg"
proof (induction s arbitrary: seg)
  case Nil
  then show ?case by simp
next
  case (Cons x xs)
  show ?case
  proof (cases "x = sep")
    case True
    with Cons show ?thesis by auto
  next
    case False
    obtain p ps where sp: "strings_Split xs sep = p # ps"
      using strings_Split_not_Nil [of xs sep] by (cases "strings_Split xs sep") auto
    with Cons.prems False have "seg = x # p \<or> seg \<in> set ps" by simp
    then show ?thesis
    proof
      assume "seg = x # p"
      moreover have "sep \<notin> set p" using Cons.IH [of p] sp by simp
      ultimately show ?thesis using False by auto
    next
      assume "seg \<in> set ps"
      then show ?thesis using Cons.IH [of seg] sp by simp
    qed
  qed
qed

lemma strings_Join_Cons:
  "es \<noteq> [] \<Longrightarrow> strings_Join (e # es) sep = e @ sep @ strings_Join es sep"
  by (cases es) simp_all

lemma strings_Join_Split: "strings_Join (strings_Split s sep) [sep] = s"
proof (induction s)
  case Nil
  then show ?case by simp
next
  case (Cons x xs)
  obtain p ps where sp: "strings_Split xs sep = p # ps"
    using strings_Split_not_Nil [of xs sep] by (cases "strings_Split xs sep") auto
  show ?case
  proof (cases "x = sep")
    case True
    then show ?thesis using Cons.IH by (simp add: strings_Join_Cons strings_Split_not_Nil)
  next
    case False
    then show ?thesis using Cons.IH sp by (cases ps) simp_all
  qed
qed

lemma strings_Join_snoc:
  "es \<noteq> [] \<Longrightarrow> strings_Join (es @ [e]) sep = strings_Join es sep @ sep @ e"
proof (induction es)
  case Nil
  then show ?case by simp
next
  case (Cons a es)
  then show ?case by (cases es) simp_all
qed

lemma last_two_decomp:
  assumes "3 \<le> length xs"
  shows "xs = take (length xs - 2) xs @ [xs ! (length xs - 2), xs ! (length xs - 1)]"
proof -
  let ?n = "length xs"
  have "xs = take (?n - 2) xs @ drop (?n - 2) xs" by simp
  moreover have "drop (?n - 2) xs = [xs ! (?n - 2), xs ! (?n - 1)]"
  proof -
    have "drop (?n - 2) xs = xs ! (?n - 2) # drop (Suc (?n - 2)) xs"
      using assms by (intro Cons_nth_drop_Suc [symmetric]) arith
    moreover have "Suc (?n - 2) = ?n - 1" using assms by arith
    moreover have "drop (?n - 1) xs = xs ! (?n - 1) # drop (Suc (?n - 1)) xs"
      using assms by (intro Cons_nth_drop_Suc [symmetric]) arith
    ultimately show ?thesis using assms by simp
  qed
  ultimately show ?thesis by simp
qed

lemma strings_Join_last_two:
  assumes "3 \<le> length xs"
  shows "strings_Join xs sep =
     strings_Join (take (length xs - 2) xs) sep @ sep @ xs ! (length xs - 2) @ sep @ xs ! (length xs - 1)"
proof -
  let ?n = "length xs"
  let ?front = "take (?n - 2) xs"
  have ne: "?front \<noteq> []" using assms by auto
  have "strings_Join xs sep = strings_Join ((?front @ [xs ! (?n - 2)]) @ [xs ! (?n - 1)]) sep"
    using last_two_decomp [OF assms] by simp
  also have "\<dots> = strings_Join (?front @ [xs ! (?n - 2)]) sep @ sep @ xs ! (?n - 1)"
    by (rule strings_Join_snoc) simp
  also have "strings_Join (?front @ [xs ! (?n - 2)]) sep = strings_Join ?front sep @ sep @ xs ! (?n - 2)"
    by (rule strings_Join_snoc [OF ne])
  finally show ?thesis by simp
qed

section \<open>The version parser\<close>

lemma parse_version_short:
  "length (strings_Split s CHR ''-'') < 3 \<Longrightarrow>
   parse_version server s = server\<lparr>Info := (Info server)\<lparr>Version := s\<rparr>\<rparr>"
  by (simp add: parse_version_def Let_def)

lemma parse_version_long:
  "3 \<le> length (strings_Split s CHR ''-'') \<Longrightarrow>
   parse_version server s =
     server\<lparr>Info := (Info server)
       \<lparr>Version := strings_Join (take (length (strings_Split s CHR ''-'') - 2) (strings_Split s CHR ''-'')) ''-'',
        GitTag := strings_Join (take (length (strings_Split s CHR ''-'') - 2) (strings_Split s CHR ''-'')) ''-'',
        GitRevision := strings_Split s CHR ''-'' ! (length (strings_Split s CHR ''-'') - 2),
        BuildStatus := strings_Split s CHR ''-'' ! (length (strings_Split s CHR ''-'') - 1)\<rparr>\<rparr>"
  by (simp add: parse_version_def Let_def)

text \<open>
  C4. Let \<open>segs\<close> be the version string \<open>s\<close> split on \<open>-\<close> and \<open>n\<close> their number. With
  \<open>n \<ge> 3\<close> the parsed entry has \<open>gitRevision = segs[n-2]\<close>, \<open>buildStatus = segs[n-1]\<close>
  and as version the segments \<open>segs[0..n-3]\<close> rejoined with \<open>-\<close> (both indices are in
  range, and version, revision and status joined with \<open>-\<close> give \<open>s\<close> back). With
  \<open>n < 3\<close> the version is \<open>s\<close> itself and revision and status are empty. The parser
  is total: it has no error result.
\<close>

theorem parse_version_fields:
  assumes "segs = strings_Split s CHR ''-''" and "n = length segs"
    and "info = Info (parse_version \<lparr>Component = component, Info = BuildInfo_zero\<rparr> s)"
  shows "(3 \<le> n \<longrightarrow>
            n - 2 < length segs \<and> n - 1 < length segs
          \<and> GitRevision info = segs ! (n - 2)
          \<and> BuildStatus info = segs ! (n - 1)
          \<and> Version info = strings_Join (take (n - 2) segs) ''-''
          \<and> s = Version info @ ''-'' @ GitRevision info @ ''-'' @ BuildStatus info)
       \<and> (n < 3 \<longrightarrow> Version info = s \<and> GitRevision info = [] \<and> BuildStatus info = [])"
proof (intro conjI impI)
  assume short: "n < 3"
  then have "info = BuildInfo_zero\<lparr>Version := s\<rparr>"
    using assms by (simp add: parse_version_short)
  then show "Version info = s" "GitRevision info = []" "BuildStatus info = []"
    by (simp_all add: BuildInfo_zero_def)
next
  assume long: "3 \<le> n"
  then show "n - 2 < length segs" "n - 1 < length segs" using assms by simp_all
  from long have i: "info = BuildInfo_zero
       \<lparr>Version := strings_Join (take (n - 2) segs) ''-'',
        GitTag := strings_Join (take (n - 2) segs) ''-'',
        GitRevision := segs ! (n - 2),
        BuildStatus := segs ! (n - 1)\<rparr>"
    using assms by (simp add: parse_version_long)
  then show g: "GitRevision info = segs ! (n - 2)"
    and b: "BuildStatus info = segs ! (n - 1)"
    and v: "Version info = strings_Join (take (n - 2) segs) ''-''"
    by simp_all
  have "s = strings_Join segs ''-''"
    using assms strings_Join_Split [of s "CHR ''-''"] by simp
  also have "\<dots> = strings_Join (take (n - 2) segs) ''-'' @ ''-'' @ segs ! (n - 2) @ ''-'' @ segs ! (n - 1)"
    using strings_Join_last_two [of segs "''-''"] long assms by simp
  finally show "s = Version info @ ''-'' @ GitRevision info @ ''-'' @ BuildStatus info"
    using g b v by simp
qed

lemma split_example:
  "strings_Split ''1.7-alpha.9c900ba-9c900ba74d10a1-Clean'' CHR ''-''
     = [''1.7'', ''alpha.9c900ba'', ''9c900ba74d10a1'', ''Clean'']"
  by simp

lemma split_short_example: "strings_Split ''1.7'' CHR ''-'' = [''1.7'']"
  by simp

theorem parse_version_fields_witness:
  "Version (Info (parse_version \<lparr>Component = ''pilot'', Info = BuildInfo_zero\<rparr>
       ''1.7-alpha.9c900ba-9c900ba74d10a1-Clean'')) = ''1.7-alpha.9c900ba''
   \<and> GitRevision (Info (parse_version \<lparr>Component = ''pilot'', Info = BuildInfo_zero\<rparr>
       ''1.7-alpha.9c900ba-9c900ba74d10a1-Clean'')) = ''9c900ba74d10a1''
   \<and> BuildStatus (Info (parse_version \<lparr>Component = ''pilot'', Info = BuildInfo_zero\<rparr>
       ''1.7-alpha.9c900ba-9c900ba74d10a1-Clean'')) = ''Clean''
   \<and> Version (Info (parse_version \<lparr>Component = ''pilot'', Info = BuildInfo_zero\<rparr> ''1.7'')) = ''1.7''
   \<and> GitRevision (Info (parse_version \<lparr>Component = ''pilot'', Info = BuildInfo_zero\<rparr> ''1.7'')) = []
   \<and> BuildStatus (Info (parse_version \<lparr>Component = ''pilot'', Info = BuildInfo_zero\<rparr> ''1.7'')) = []"
proof -
  have long: "(3::nat) \<le> length [''1.7'', ''alpha.9c900ba'', ''9c900ba74d10a1'', ''Clean'']"
    and short: "length [''1.7''] < (3::nat)"
    by simp_all
  show ?thesis
    using parse_version_fields [OF split_example [symmetric] refl refl, of "''pilot''"]
          parse_version_fields [OF split_short_example [symmetric] refl refl, of "''pilot''"]
          long short
    by simp
qed

section \<open>The loop of \<open>GetIstioVersions\<close>\<close>

lemma multierror_Append_fold:
  "fold (\<lambda>e acc. Some (multierror_Append acc e)) fs (Some (MultiError es)) = Some (MultiError (es @ fs))"
  by (induction fs arbitrary: es) simp_all

lemma multierror_Append_fold_nil:
  "fold (\<lambda>e acc. Some (multierror_Append acc e)) fs None =
     (if fs = [] then None else Some (MultiError fs))"
  by (cases fs) (simp_all add: multierror_Append_fold)

lemma GetIstioVersions_loop_step:
  "GetIstioVersions_loop k (p # pods) errs res sent =
     GetIstioVersions_loop k pods
       (if probe_failed k (version_request p)
        then Some (multierror_Append errs (version_failure k p)) else errs)
       (if probe_payload k (version_request p) \<noteq> [] then res @ [version_entry k p] else res)
       (sent @ [version_request p])"
proof (cases "DoRaw k (version_request p)")
  case (Inl e)
  then show ?thesis
    using probe_cases(1) [OF Inl]
    by (simp add: Let_def version_request_def [symmetric] version_failure_def)
next
  case (Inr r)
  then show ?thesis
    using probe_cases(2) [OF Inr]
    by (simp add: Let_def version_request_def [symmetric] version_entry_def)
qed

lemma GetIstioVersions_loop_eq:
  "GetIstioVersions_loop k pods errs res sent =
     (res @ map (version_entry k) (filter (\<lambda>p. probe_payload k (version_request p) \<noteq> []) pods),
      fold (\<lambda>e acc. Some (multierror_Append acc e))
        (map (version_failure k) (filter (\<lambda>p. probe_failed k (version_request p)) pods)) errs,
      sent @ map version_request pods)"
proof (induction pods arbitrary: errs res sent)
  case Nil
  then show ?case by simp
next
  case (Cons p pods)
  show ?case
    unfolding GetIstioVersions_loop_step Cons.IH by simp
qed

lemma GetIstioVersions_resolved:
  assumes "GetIstioPods k c ns (Some version_params) = Done (Inr pods)" and "pods \<noteq> []"
  shows "GetIstioVersions k c ns =
     Done ((Some (map (version_entry k) (filter (\<lambda>p. probe_payload k (version_request p) \<noteq> []) pods)),
       (if filter (\<lambda>p. probe_failed k (version_request p)) pods = [] then None
        else Some (MultiError
               (map (version_failure k) (filter (\<lambda>p. probe_failed k (version_request p)) pods))))),
      map version_request pods)"
  using assms
  by (simp add: GetIstioVersions_def version_params_def [symmetric] GetIstioVersions_loop_eq
      multierror_Append_fold_nil)

lemma failed_no_payload: "probe_failed k rq \<Longrightarrow> probe_payload k rq = []"
  by (cases "DoRaw k rq") (simp_all add: probe_failed_def probe_payload_def)

text \<open>
  C5. \<open>GetIstioVersions\<close> over a non-empty pod set. When at least one probe returns a
  non-empty payload and at least one fails, the function returns both values: the
  aggregate, which is non-empty and holds exactly the entries of the pods with a
  non-empty payload, in order, and the combined error, which holds one error per
  failed pod, in order; this is the success with recorded errors. When every probe
  fails, the aggregate is empty and the combined error holds an error for every pod:
  the total failure. In both cases every pod was sent its request.
\<close>

theorem GetIstioVersions_partial_failure:
  assumes "GetIstioPods k c ns (Some version_params) = Done (Inr pods)" and "pods \<noteq> []"
    and "good = filter (\<lambda>p. probe_payload k (version_request p) \<noteq> []) pods"
    and "bad = filter (\<lambda>p. probe_failed k (version_request p)) pods"
  shows "(good \<noteq> [] \<and> bad \<noteq> [] \<longrightarrow>
            GetIstioVersions k c ns =
              Done ((Some (map (version_entry k) good), Some (MultiError (map (version_failure k) bad))),
               map version_request pods)
          \<and> map (version_entry k) good \<noteq> []
          \<and> set good \<inter> set bad = {})
       \<and> ((\<forall>p\<in>set pods. probe_failed k (version_request p)) \<longrightarrow>
            GetIstioVersions k c ns =
              Done ((Some [], Some (MultiError (map (version_failure k) pods))),
               map version_request pods))"
proof (intro conjI impI)
  assume h: "good \<noteq> [] \<and> bad \<noteq> []"
  then show "GetIstioVersions k c ns =
              Done ((Some (map (version_entry k) good), Some (MultiError (map (version_failure k) bad))),
               map version_request pods)"
    using GetIstioVersions_resolved [OF assms(1,2)] assms(3,4) by simp
  from h show "map (version_entry k) good \<noteq> []" by simp
  show "set good \<inter> set bad = {}"
    using assms(3,4) failed_no_payload [of k] by auto
next
  assume all: "\<forall>p\<in>set pods. probe_failed k (version_request p)"
  then have b: "filter (\<lambda>p. probe_failed k (version_request p)) pods = pods"
    by simp
  from all have "\<forall>p\<in>set pods. probe_payload k (version_request p) = []"
    by (simp add: failed_no_payload)
  then have g: "filter (\<lambda>p. probe_payload k (version_request p) \<noteq> []) pods = []"
    by simp
  show "GetIstioVersions k c ns =
              Done ((Some [], Some (MultiError (map (version_failure k) pods))),
               map version_request pods)"
    using GetIstioVersions_resolved [OF assms(1,2)] assms(2) by (simp add: b g)
qed

lemma version_entry_example:
  "version_entry (cluster pods raw_mixed) pod_b =
     \<lparr>Component = ''pilot'',
      Info = \<lparr>Version = ''1.7-alpha.9c900ba'', GitRevision = ''9c900ba74d10a1'',
              GolangVersion = [], BuildStatus = ''Clean'', GitTag = ''1.7-alpha.9c900ba''\<rparr>\<rparr>"
  by (simp add: version_entry_def probe_payload_def DoRaw_cluster raw_mixed_def version_request_def
      proxyGet_def pod_b_def label_istio_def parse_version_def BuildInfo_zero_def)

theorem GetIstioVersions_partial_failure_witness:
  "GetIstioVersions (cluster [pod_b, pod_a, pod_c] raw_mixed) default_client ''istio-system'' =
     Done ((Some [\<lparr>Component = ''pilot'',
              Info = \<lparr>Version = ''1.7-alpha.9c900ba'', GitRevision = ''9c900ba74d10a1'',
                      GolangVersion = [], BuildStatus = ''Clean'', GitTag = ''1.7-alpha.9c900ba''\<rparr>\<rparr>],
       Some (MultiError [''error port-forewarding into istiod-a : connection refused''])),
      [version_request pod_b, version_request pod_a, version_request pod_c])
   \<and> GetIstioVersions (cluster [pod_a, pod_b] raw_all_fail) default_client ''istio-system'' =
     Done ((Some [],
       Some (MultiError [''error port-forewarding into istiod-a : no route to istiod-a'',
                         ''error port-forewarding into istiod-b : no route to istiod-b''])),
      [version_request pod_a, version_request pod_b])"
proof -
  let ?k1 = "cluster [pod_b, pod_a, pod_c] raw_mixed"
  let ?k2 = "cluster [pod_a, pod_b] raw_all_fail"
  have good: "[pod_b] = filter (\<lambda>p. probe_payload ?k1 (version_request p) \<noteq> []) [pod_b, pod_a, pod_c]"
    by (simp add: probe_payload_def DoRaw_cluster raw_mixed_def version_request_def proxyGet_def
        pod_a_def pod_b_def pod_c_def)
  have bad: "[pod_a] = filter (\<lambda>p. probe_failed ?k1 (version_request p)) [pod_b, pod_a, pod_c]"
    by (simp add: probe_failed_def DoRaw_cluster raw_mixed_def version_request_def proxyGet_def
        pod_a_def pod_b_def pod_c_def)
  have f1: "version_failure ?k1 pod_a = ''error port-forewarding into istiod-a : connection refused''"
    by (simp add: version_failure_def probe_error_def DoRaw_cluster raw_mixed_def version_request_def
        proxyGet_def pod_a_def)
  have r1: "GetIstioVersions ?k1 default_client ''istio-system'' =
      Done ((Some (map (version_entry ?k1) [pod_b]), Some (MultiError (map (version_failure ?k1) [pod_a]))),
       map version_request [pod_b, pod_a, pod_c])"
    using GetIstioVersions_partial_failure [OF resolve_cluster _ good bad] by simp
  have all: "\<forall>p\<in>set [pod_a, pod_b]. probe_failed ?k2 (version_request p)"
    by (simp add: probe_failed_def DoRaw_cluster raw_all_fail_def)
  have f2: "version_failure ?k2 pod_a = ''error port-forewarding into istiod-a : no route to istiod-a''"
    "version_failure ?k2 pod_b = ''error port-forewarding into istiod-b : no route to istiod-b''"
    by (simp_all add: version_failure_def probe_error_def DoRaw_cluster raw_all_fail_def
        version_request_def proxyGet_def pod_a_def pod_b_def)
  have r2: "GetIstioVersions ?k2 default_client ''istio-system'' =
      Done ((Some [], Some (MultiError (map (version_failure ?k2) [pod_a, pod_b]))),
       map version_request [pod_a, pod_b])"
    using GetIstioVersions_partial_failure [OF resolve_cluster _ refl refl] all by blast
  show ?thesis
    unfolding r1 r2 by (simp add: version_entry_example f1 f2)
qed

section \<open>Empty payloads\<close>

lemma AllDiscoveryDo_loop_step:
  "AllDiscoveryDo_loop k path (p # ps) result sent =
     (if probe_failed k (discovery_request path p)
      then (Inl (probe_error k (discovery_request path p)), sent @ [discovery_request path p])
      else AllDiscoveryDo_loop k path ps
             (if probe_payload k (discovery_request path p) \<noteq> []
              then result(Name p \<mapsto> probe_payload k (discovery_request path p)) else result)
             (sent @ [discovery_request path p]))"
proof (cases "DoRaw k (discovery_request path p)")
  case (Inl e)
  then show ?thesis
    using probe_cases(1) [OF Inl] by (simp add: Let_def discovery_request_def [symmetric])
next
  case (Inr r)
  then show ?thesis
    using probe_cases(2) [OF Inr] by (simp add: Let_def discovery_request_def [symmetric])
qed

lemma AllDiscoveryDo_loop_values:
  "AllDiscoveryDo_loop k path pilots result sent = (Inr m, sent') \<Longrightarrow> m name = Some v \<Longrightarrow>
   result name = Some v \<or>
   (v \<noteq> [] \<and> (\<exists>p\<in>set pilots. Name p = name \<and> DoRaw k (discovery_request path p) = Inr v))"
proof (induction pilots arbitrary: result sent)
  case Nil
  then show ?case by simp
next
  case (Cons p ps)
  let ?rq = "discovery_request path p"
  let ?result' = "if probe_payload k ?rq \<noteq> [] then result(Name p \<mapsto> probe_payload k ?rq) else result"
  from Cons.prems(1) have ok: "\<not> probe_failed k ?rq"
    and run: "AllDiscoveryDo_loop k path ps ?result' (sent @ [?rq]) = (Inr m, sent')"
    by (auto simp: AllDiscoveryDo_loop_step simp del: AllDiscoveryDo_loop.simps(2) split: if_splits)
  from Cons.IH [OF run Cons.prems(2)]
  consider "?result' name = Some v"
    | "v \<noteq> []" "\<exists>q\<in>set ps. Name q = name \<and> DoRaw k (discovery_request path q) = Inr v"
    by blast
  then show ?case
  proof cases
    case 1
    show ?thesis
    proof (cases "probe_payload k ?rq \<noteq> [] \<and> name = Name p")
      case True
      with 1 have "v = probe_payload k ?rq" by simp
      with True probe_not_failed [OF ok] show ?thesis by auto
    next
      case False
      with 1 have "result name = Some v" by (auto split: if_splits)
      then show ?thesis by simp
    qed
  next
    case 2
    then show ?thesis by auto
  qed
qed

lemma AllDiscoveryDo_loop_skip:
  "DoRaw k (discovery_request path p) = Inr [] \<Longrightarrow>
   fst (AllDiscoveryDo_loop k path (ps @ p # qs) result sent) =
   fst (AllDiscoveryDo_loop k path (ps @ qs) result sent)"
proof (induction ps arbitrary: result sent)
  case Nil
  have same: "fst (AllDiscoveryDo_loop k path qs result s1) = fst (AllDiscoveryDo_loop k path qs result s2)"
    for s1 s2
    by (induction qs arbitrary: result s1 s2)
      (auto simp: AllDiscoveryDo_loop_step simp del: AllDiscoveryDo_loop.simps(2))
  from Nil show ?case
    using probe_cases(2) [OF Nil] same
    by (simp add: AllDiscoveryDo_loop_step del: AllDiscoveryDo_loop.simps(2))
next
  case (Cons a ps)
  then show ?case by (simp add: AllDiscoveryDo_loop_step del: AllDiscoveryDo_loop.simps(2))
qed

lemma GetIstioVersions_loop_skip:
  assumes "DoRaw k (version_request p) = Inr []"
  shows "fst (GetIstioVersions_loop k (ps @ p # qs) errs res sent) =
           fst (GetIstioVersions_loop k (ps @ qs) errs res sent)
       \<and> fst (snd (GetIstioVersions_loop k (ps @ p # qs) errs res sent)) =
           fst (snd (GetIstioVersions_loop k (ps @ qs) errs res sent))"
  using probe_cases(2) [OF assms] by (simp add: GetIstioVersions_loop_eq)

text \<open>
  C8. Every value stored in the map that \<open>AllDiscoveryDo\<close> returns is the non-empty
  payload of one of the resolved pods, stored under that pod's name. Every entry of the
  aggregate that \<open>GetIstioVersions\<close> returns is the entry of a pod whose probe returned a
  non-empty payload, one entry per such pod. A pod whose request succeeds with an
  empty payload leaves no trace in either loop: the map, the aggregate and the errors
  are what they would be had the pod not been in the list.
\<close>

theorem fanout_drops_empty_payloads:
  "(GetIstioPods k c ns (Some discovery_params) = Done (Inr pilots)
      \<and> AllDiscoveryDo k c ns path = Done (Inr m, sent) \<and> m name = Some v \<longrightarrow>
        v \<noteq> [] \<and> (\<exists>p\<in>set pilots. Name p = name \<and> DoRaw k (discovery_request path p) = Inr v))
   \<and> (GetIstioPods k c ns (Some version_params) = Done (Inr pods)
      \<and> GetIstioVersions k c ns = Done ((Some res, errs), sent2) \<longrightarrow>
        res = map (version_entry k) (filter (\<lambda>p. probe_payload k (version_request p) \<noteq> []) pods))
   \<and> (DoRaw k (discovery_request path p) = Inr [] \<longrightarrow>
        fst (AllDiscoveryDo_loop k path (ps @ p # qs) result sent0) =
        fst (AllDiscoveryDo_loop k path (ps @ qs) result sent0))
   \<and> (DoRaw k (version_request p) = Inr [] \<longrightarrow>
        fst (GetIstioVersions_loop k (ps @ p # qs) errs0 res0 sent1) =
          fst (GetIstioVersions_loop k (ps @ qs) errs0 res0 sent1)
      \<and> fst (snd (GetIstioVersions_loop k (ps @ p # qs) errs0 res0 sent1)) =
          fst (snd (GetIstioVersions_loop k (ps @ qs) errs0 res0 sent1)))"
proof (intro conjI impI)
  assume h: "GetIstioPods k c ns (Some discovery_params) = Done (Inr pilots)
      \<and> AllDiscoveryDo k c ns path = Done (Inr m, sent) \<and> m name = Some v"
  then have ne: "pilots \<noteq> []"
    by (auto simp: AllDiscoveryDo_def discovery_params_def)
  have "AllDiscoveryDo_loop k path pilots Map.empty [] = (Inr m, sent)"
    using AllDiscoveryDo_resolved [of k c ns pilots path] h ne by simp
  from AllDiscoveryDo_loop_values [OF this, of name v] h
  show "v \<noteq> []" and "\<exists>p\<in>set pilots. Name p = name \<and> DoRaw k (discovery_request path p) = Inr v"
    by simp_all
next
  assume h: "GetIstioPods k c ns (Some version_params) = Done (Inr pods)
      \<and> GetIstioVersions k c ns = Done ((Some res, errs), sent2)"
  then have ne: "pods \<noteq> []"
    by (auto simp: GetIstioVersions_def version_params_def)
  show "res = map (version_entry k) (filter (\<lambda>p. probe_payload k (version_request p) \<noteq> []) pods)"
    using GetIstioVersions_resolved [of k c ns pods] h ne by simp
next
  assume "DoRaw k (discovery_request path p) = Inr []"
  then show "fst (AllDiscoveryDo_loop k path (ps @ p # qs) result sent0) =
        fst (AllDiscoveryDo_loop k path (ps @ qs) result sent0)"
    by (rule AllDiscoveryDo_loop_skip)
next
  assume e: "DoRaw k (version_request p) = Inr []"
  show "fst (GetIstioVersions_loop k (ps @ p # qs) errs0 res0 sent1) =
          fst (GetIstioVersions_loop k (ps @ qs) errs0 res0 sent1)"
    and "fst (snd (GetIstioVersions_loop k (ps @ p # qs) errs0 res0 sent1)) =
          fst (snd (GetIstioVersions_loop k (ps @ qs) errs0 res0 sent1))"
    using GetIstioVersions_loop_skip [OF e] by simp_all
qed

lemma AllDiscoveryDo_all_ok_example:
  "AllDiscoveryDo (cluster [pod_a, pod_c, pod_b] raw_all_ok) default_client ''istio-system'' ''/debug/syncz''
     = Done (Inr [''istiod-a'' \<mapsto> ''pong istiod-a'', ''istiod-b'' \<mapsto> ''pong istiod-b''],
        [discovery_request ''/debug/syncz'' pod_a, discovery_request ''/debug/syncz'' pod_c,
         discovery_request ''/debug/syncz'' pod_b])"
proof -
  let ?k = "cluster [pod_a, pod_c, pod_b] raw_all_ok"
  have ok: "\<forall>p\<in>set [pod_a, pod_c, pod_b]. \<not> probe_failed ?k (discovery_request ''/debug/syncz'' p)"
    by (simp add: DoRaw_cluster probe_failed_def raw_all_ok_def)
  have m: "map_of (rev (discovery_entries ?k ''/debug/syncz'' [pod_a, pod_c, pod_b]))
      = [''istiod-a'' \<mapsto> ''pong istiod-a'', ''istiod-b'' \<mapsto> ''pong istiod-b'']"
    by (simp add: discovery_entries_def probe_payload_def DoRaw_cluster raw_all_ok_def
        discovery_request_def proxyGet_def pod_a_def pod_b_def pod_c_def)
  have "AllDiscoveryDo ?k default_client ''istio-system'' ''/debug/syncz''
      = Done (AllDiscoveryDo_loop ?k ''/debug/syncz'' [pod_a, pod_c, pod_b] Map.empty [])"
    by (rule AllDiscoveryDo_resolved [OF resolve_cluster]) simp
  then show ?thesis
    unfolding AllDiscoveryDo_loop_all_ok [OF ok] m by simp
qed

lemma GetIstioVersions_mixed_example:
  "GetIstioVersions (cluster [pod_b, pod_a, pod_c] raw_mixed) default_client ''istio-system'' =
     Done ((Some [version_entry (cluster [pod_b, pod_a, pod_c] raw_mixed) pod_b],
            Some (MultiError [''error port-forewarding into istiod-a : connection refused''])),
           map version_request [pod_b, pod_a, pod_c])"
proof -
  let ?k = "cluster [pod_b, pod_a, pod_c] raw_mixed"
  have good: "filter (\<lambda>p. probe_payload ?k (version_request p) \<noteq> []) [pod_b, pod_a, pod_c] = [pod_b]"
    by (simp add: probe_payload_def DoRaw_cluster raw_mixed_def version_request_def proxyGet_def
        pod_a_def pod_b_def pod_c_def)
  have bad: "filter (\<lambda>p. probe_failed ?k (version_request p)) [pod_b, pod_a, pod_c] = [pod_a]"
    by (simp add: probe_failed_def DoRaw_cluster raw_mixed_def version_request_def proxyGet_def
        pod_a_def pod_b_def pod_c_def)
  have f: "version_failure ?k pod_a = ''error port-forewarding into istiod-a : connection refused''"
    by (simp add: version_failure_def probe_error_def DoRaw_cluster raw_mixed_def version_request_def
        proxyGet_def pod_a_def)
  have ne: "[pod_b, pod_a, pod_c] \<noteq> []" by simp
  show ?thesis
    unfolding GetIstioVersions_resolved [OF resolve_cluster ne] good bad
    by (simp add: f)
qed

theorem fanout_drops_empty_payloads_witness:
  "''pong istiod-a'' \<noteq> []
   \<and> (\<exists>p\<in>set [pod_a, pod_c, pod_b]. Name p = ''istiod-a''
        \<and> DoRaw (cluster [pod_a, pod_c, pod_b] raw_all_ok) (discovery_request ''/debug/syncz'' p)
            = Inr ''pong istiod-a'')
   \<and> [version_entry (cluster [pod_b, pod_a, pod_c] raw_mixed) pod_b]
       = map (version_entry (cluster [pod_b, pod_a, pod_c] raw_mixed))
           (filter (\<lambda>p. probe_payload (cluster [pod_b, pod_a, pod_c] raw_mixed) (version_request p) \<noteq> [])
              [pod_b, pod_a, pod_c])
   \<and> fst (AllDiscoveryDo_loop (cluster [pod_a, pod_c, pod_b] raw_all_ok) ''/debug/syncz''
            ([pod_a] @ pod_c # [pod_b]) Map.empty [])
       = fst (AllDiscoveryDo_loop (cluster [pod_a, pod_c, pod_b] raw_all_ok) ''/debug/syncz''
            ([pod_a] @ [pod_b]) Map.empty [])
   \<and> fst (GetIstioVersions_loop (cluster [pod_b, pod_a, pod_c] raw_mixed) ([pod_b, pod_a] @ pod_c # []) None [] [])
       = fst (GetIstioVersions_loop (cluster [pod_b, pod_a, pod_c] raw_mixed) ([pod_b, pod_a] @ []) None [] [])
   \<and> fst (snd (GetIstioVersions_loop (cluster [pod_b, pod_a, pod_c] raw_mixed) ([pod_b, pod_a] @ pod_c # []) None [] []))
       = fst (snd (GetIstioVersions_loop (cluster [pod_b, pod_a, pod_c] raw_mixed) ([pod_b, pod_a] @ []) None [] []))"
proof -
  let ?k1 = "cluster [pod_b, pod_a, pod_c] raw_mixed"
  let ?k2 = "cluster [pod_a, pod_c, pod_b] raw_all_ok"
  let ?m = "[''istiod-a'' \<mapsto> ''pong istiod-a'', ''istiod-b'' \<mapsto> ''pong istiod-b'']"
  have look: "?m ''istiod-a'' = Some ''pong istiod-a''" by simp
  have e2: "DoRaw ?k2 (discovery_request ''/debug/syncz'' pod_c) = Inr []"
    by (simp add: DoRaw_cluster raw_all_ok_def discovery_request_def proxyGet_def pod_c_def)
  have e1: "DoRaw ?k1 (version_request pod_c) = Inr []"
    by (simp add: DoRaw_cluster raw_mixed_def version_request_def proxyGet_def pod_c_def)
  note inst1 = fanout_drops_empty_payloads
    [where k = ?k2 and c = default_client and ns = "''istio-system''" and path = "''/debug/syncz''"
       and pilots = "[pod_a, pod_c, pod_b]" and m = ?m and name = "''istiod-a''" and v = "''pong istiod-a''"
       and sent = "[discovery_request ''/debug/syncz'' pod_a, discovery_request ''/debug/syncz'' pod_c,
         discovery_request ''/debug/syncz'' pod_b]"
       and p = pod_c and ps = "[pod_a]" and qs = "[pod_b]" and result = Map.empty and ?sent0.0 = "[]"]
  note inst2 = fanout_drops_empty_payloads
    [where k = ?k1 and c = default_client and ns = "''istio-system''"
       and pods = "[pod_b, pod_a, pod_c]" and res = "[version_entry ?k1 pod_b]"
       and errs = "Some (MultiError [''error port-forewarding into istiod-a : connection refused''])"
       and ?sent2.0 = "map version_request [pod_b, pod_a, pod_c]"
       and p = pod_c and ps = "[pod_b, pod_a]" and qs = "[]" and ?errs0.0 = None and ?res0.0 = "[]"
       and ?sent1.0 = "[]"]
  show ?thesis
    using inst1 inst2 AllDiscoveryDo_all_ok_example GetIstioVersions_mixed_example look e1 e2
      resolve_cluster [of "[pod_a, pod_c, pod_b]" raw_all_ok "Some discovery_params"]
      resolve_cluster [of "[pod_b, pod_a, pod_c]" raw_mixed "Some version_params"]
    by blast
qed

section \<open>The tunnel of \<open>EnvoyDo\<close>\<close>

lemma EnvoyDo_read_events: "snd (EnvoyDo_read resp) = [BodyRead]"
  by (simp add: EnvoyDo_read_def split: sum.splits)

lemma EnvoyDo_request_no_tunnel_event:
  "FwClosed \<notin> set (snd (EnvoyDo_request n fw method path))
   \<and> FwStarted \<notin> set (snd (EnvoyDo_request n fw method path))"
  using EnvoyDo_read_events
  by (auto simp: EnvoyDo_request_def Let_def split: option.splits sum.splits prod.splits
      dest!: arg_cong [where f = snd])

text \<open>
  C6. Whenever \<open>EnvoyDo\<close> has opened the tunnel (its \<open>Start\<close> succeeded), the tunnel is
  closed before \<open>EnvoyDo\<close> returns: the start is the first event, the close is the last
  one, and it happens exactly once, whatever the result, so also when the request
  cannot be built, when the request fails and when reading the body fails.
\<close>

theorem EnvoyDo_closes_tunnel:
  assumes "EnvoyDo n c podName podNamespace method path body = (r, evs)"
    and "FwStarted \<in> set evs"
  shows "hd evs = FwStarted \<and> last evs = FwClosed \<and> count_list evs FwClosed = 1"
proof -
  from assms obtain fw where fw: "NewPortForwarder n c podName podNamespace ''127.0.0.1'' 0 15000 = Inr fw"
    and st: "Start fw = None"
    by (auto simp: EnvoyDo_def split: sum.splits option.splits prod.splits)
  obtain r' mid where rq: "EnvoyDo_request n fw method path = (r', mid)"
    by (cases "EnvoyDo_request n fw method path")
  from assms(1) fw st rq have evs: "evs = [FwStarted] @ mid @ [FwClosed]"
    by (simp add: EnvoyDo_def)
  have "FwClosed \<notin> set mid"
    using EnvoyDo_request_no_tunnel_event [of n fw "method" "path"] rq by simp
  then have "count_list mid FwClosed = 0"
    by (simp add: count_list_0_iff)
  with evs show ?thesis by simp
qed

lemma EnvoyDo_example:
  "EnvoyDo (tunnel_net None newreq resp) default_client ''httpbin'' ''default'' ''GET'' ''stats'' body =
     (case EnvoyDo_request (tunnel_net None newreq resp)
             \<lparr>Start = None, Address = ''127.0.0.1:40000''\<rparr> ''GET'' ''stats'' of
        (r, evs) \<Rightarrow> (r, [FwStarted] @ evs @ [FwClosed]))"
  by (simp add: EnvoyDo_def NewPortForwarder_def tunnel_net_def)

lemma EnvoyDo_ok_example:
  "EnvoyDo (tunnel_net None None (Inr \<lparr>ReadAll = Inr ''cluster.outbound''\<rparr>)) default_client
       ''httpbin'' ''default'' ''GET'' ''stats'' body =
     (Inr ''cluster.outbound'',
      [FwStarted,
       HttpDo \<lparr>http_method = ''GET'', http_url = ''http://127.0.0.1:40000/stats'', http_body = None\<rparr>,
       BodyRead, BodyClosed, FwClosed])"
  unfolding EnvoyDo_example
  by (simp add: EnvoyDo_request_def EnvoyDo_read_def tunnel_net_def)

lemma EnvoyDo_newreq_example:
  "EnvoyDo (tunnel_net None (Some ''invalid method'') (Inl ''unused'')) default_client
       ''httpbin'' ''default'' ''GET'' ''stats'' body =
     (Inl ''failure running port forward process: invalid method'', [FwStarted, FwClosed])"
  unfolding EnvoyDo_example
  by (simp add: EnvoyDo_request_def tunnel_net_def formatError_def)

lemma EnvoyDo_do_example:
  "EnvoyDo (tunnel_net None None (Inl ''connection reset'')) default_client
       ''httpbin'' ''default'' ''GET'' ''stats'' body =
     (Inl ''failure running port forward process: connection reset'',
      [FwStarted,
       HttpDo \<lparr>http_method = ''GET'', http_url = ''http://127.0.0.1:40000/stats'', http_body = None\<rparr>,
       FwClosed])"
  unfolding EnvoyDo_example
  by (simp add: EnvoyDo_request_def tunnel_net_def formatError_def)

lemma EnvoyDo_read_example:
  "EnvoyDo (tunnel_net None None (Inr \<lparr>ReadAll = Inl ''unexpected EOF''\<rparr>)) default_client
       ''httpbin'' ''default'' ''GET'' ''stats'' body =
     (Inl ''failure running port forward process: unexpected EOF'',
      [FwStarted,
       HttpDo \<lparr>http_method = ''GET'', http_url = ''http://127.0.0.1:40000/stats'', http_body = None\<rparr>,
       BodyRead, BodyClosed, FwClosed])"
  unfolding EnvoyDo_example
  by (simp add: EnvoyDo_request_def EnvoyDo_read_def tunnel_net_def formatError_def)

theorem EnvoyDo_closes_tunnel_witness:
  "last (snd (EnvoyDo (tunnel_net None None (Inr \<lparr>ReadAll = Inr ''cluster.outbound''\<rparr>)) default_client
       ''httpbin'' ''default'' ''GET'' ''stats'' [])) = FwClosed
   \<and> last (snd (EnvoyDo (tunnel_net None (Some ''invalid method'') (Inl ''unused'')) default_client
       ''httpbin'' ''default'' ''GET'' ''stats'' [])) = FwClosed
   \<and> last (snd (EnvoyDo (tunnel_net None None (Inl ''connection reset'')) default_client
       ''httpbin'' ''default'' ''GET'' ''stats'' [])) = FwClosed
   \<and> last (snd (EnvoyDo (tunnel_net None None (Inr \<lparr>ReadAll = Inl ''unexpected EOF''\<rparr>)) default_client
       ''httpbin'' ''default'' ''GET'' ''stats'' [])) = FwClosed
   \<and> count_list (snd (EnvoyDo (tunnel_net None None (Inr \<lparr>ReadAll = Inl ''unexpected EOF''\<rparr>))
       default_client ''httpbin'' ''default'' ''GET'' ''stats'' [])) FwClosed = 1"
proof -
  have a: "last evs = FwClosed \<and> count_list evs FwClosed = 1"
    if "EnvoyDo n default_client ''httpbin'' ''default'' ''GET'' ''stats'' [] = (r, evs)"
      and "FwStarted \<in> set evs" for n r evs
    using EnvoyDo_closes_tunnel [OF that] by simp
  show ?thesis
    using a [OF EnvoyDo_ok_example] a [OF EnvoyDo_newreq_example] a [OF EnvoyDo_do_example]
      a [OF EnvoyDo_read_example]
    by (simp add: EnvoyDo_ok_example EnvoyDo_newreq_example EnvoyDo_do_example EnvoyDo_read_example)
qed

text \<open>
  C9. \<open>EnvoyDo\<close> does not depend on its body argument: with the other arguments and the
  environment the same, two bodies give the same result and the same events, and every
  HTTP request it issues has a nil body.
\<close>

theorem EnvoyDo_ignores_body:
  "EnvoyDo n c podName podNamespace method path b1 = EnvoyDo n c podName podNamespace method path b2
   \<and> (\<forall>rq. HttpDo rq \<in> set (snd (EnvoyDo n c podName podNamespace method path b1)) \<longrightarrow>
         http_body rq = None)"
proof
  show "EnvoyDo n c podName podNamespace method path b1 = EnvoyDo n c podName podNamespace method path b2"
    by (simp add: EnvoyDo_def)
next
  have "http_body rq = None"
    if "EnvoyDo_request n fw method path = (r, evs)" and "HttpDo rq \<in> set evs" for rq fw r evs
    using that EnvoyDo_read_events
    by (auto simp: EnvoyDo_request_def Let_def split: option.splits sum.splits prod.splits
        dest!: arg_cong [where f = snd])
  then show "\<forall>rq. HttpDo rq \<in> set (snd (EnvoyDo n c podName podNamespace method path b1)) \<longrightarrow>
         http_body rq = None"
    by (auto simp: EnvoyDo_def split: sum.splits option.splits prod.splits)
qed

theorem EnvoyDo_ignores_body_witness:
  "EnvoyDo (tunnel_net None None (Inr \<lparr>ReadAll = Inr ''cluster.outbound''\<rparr>)) default_client
       ''httpbin'' ''default'' ''POST'' ''logging'' ''level=debug''
   = EnvoyDo (tunnel_net None None (Inr \<lparr>ReadAll = Inr ''cluster.outbound''\<rparr>)) default_client
       ''httpbin'' ''default'' ''POST'' ''logging'' []
   \<and> HttpDo \<lparr>http_method = ''GET'', http_url = ''http://127.0.0.1:40000/stats'', http_body = None\<rparr>
       \<in> set (snd (EnvoyDo (tunnel_net None None (Inr \<lparr>ReadAll = Inr ''cluster.outbound''\<rparr>))
                  default_client ''httpbin'' ''default'' ''GET'' ''stats'' ''ignored''))
   \<and> http_body \<lparr>http_method = ''GET'', http_url = ''http://127.0.0.1:40000/stats'', http_body = None\<rparr>
       = None"
  using EnvoyDo_ignores_body [of "tunnel_net None None (Inr \<lparr>ReadAll = Inr ''cluster.outbound''\<rparr>)"
          default_client "''httpbin''" "''default''" "''POST''" "''logging''" "''level=debug''" "[]"]
        EnvoyDo_ignores_body [of "tunnel_net None None (Inr \<lparr>ReadAll = Inr ''cluster.outbound''\<rparr>)"
          default_client "''httpbin''" "''default''" "''GET''" "''stats''" "''ignored''" "[]"]
  by (simp add: EnvoyDo_ok_example)

section \<open>The error of \<open>PodExec\<close>\<close>

lemma PodExec_deferred_stderr:
  "stderr \<noteq> [] \<Longrightarrow>
   PodExec_deferred podName podNamespace container (stdout, stderr, Some e) =
     (stdout, stderr,
      Some (exec_prefix podName podNamespace container @
            exec_prefix podName podNamespace container @ e @ [CHR 0x0A] @ stderr))"
  by (simp add: PodExec_deferred_def)

lemma sublist_exec_prefix:
  "sublist podName (exec_prefix podName podNamespace container)"
  "sublist podNamespace (exec_prefix podName podNamespace container)"
  "sublist container (exec_prefix podName podNamespace container)"
proof -
  show "sublist podName (exec_prefix podName podNamespace container)"
    unfolding exec_prefix_def sublist_def
    by (rule exI [of _ "''error exec'' @ [CHR 0x27] @ ''ing into ''"],
        rule exI [of _ "''/'' @ podNamespace @ '' '' @ container @ '' container: ''"]) simp
  show "sublist podNamespace (exec_prefix podName podNamespace container)"
    unfolding exec_prefix_def sublist_def
    by (rule exI [of _ "''error exec'' @ [CHR 0x27] @ ''ing into '' @ podName @ ''/''"],
        rule exI [of _ "'' '' @ container @ '' container: ''"]) simp
  show "sublist container (exec_prefix podName podNamespace container)"
    unfolding exec_prefix_def sublist_def
    by (rule exI [of _ "''error exec'' @ [CHR 0x27] @ ''ing into '' @ podName @ ''/'' @ podNamespace @ '' ''"],
        rule exI [of _ "'' container: ''"]) simp
qed

lemma sublist_prepend: "sublist xs ys \<Longrightarrow> sublist xs (ys @ zs)"
  by (auto simp: sublist_def) (metis append.assoc)

text \<open>
  C7. When the remote command of a \<open>PodExec\<close> call fails (the stream returns an error)
  and has written a non-empty stderr, the error returned to the caller has a message
  that contains the captured stderr verbatim, at its end, after the message of the
  underlying failure, and that names the pod, the namespace and the container. Stdout
  and stderr are returned as captured.
\<close>

theorem PodExec_error_carries_stderr:
  assumes "req = \<lparr>exec_podName = podName, exec_podNamespace = podNamespace,
                  exec_container = container, exec_command = Fields s command\<rparr>"
    and "roundTripperFor s (config c) = None"
    and "NewSPDYExecutor s req = None"
    and "Stream s req = (out, errText, Some e)"
    and "errText \<noteq> []"
  shows "\<exists>msg. PodExec s c podName podNamespace container command = (out, errText, Some msg)
           \<and> msg = exec_prefix podName podNamespace container @
                   exec_prefix podName podNamespace container @ e @ [CHR 0x0A] @ errText
           \<and> sublist errText msg \<and> suffix errText msg \<and> sublist e msg
           \<and> sublist podName msg \<and> sublist podNamespace msg \<and> sublist container msg"
proof -
  let ?pre = "exec_prefix podName podNamespace container"
  let ?msg = "?pre @ ?pre @ e @ [CHR 0x0A] @ errText"
  have body: "PodExec_body s c podName podNamespace container command = (out, errText, Some e)"
    using assms(1-4) by (simp add: PodExec_body_def)
  have run: "PodExec s c podName podNamespace container command = (out, errText, Some ?msg)"
    unfolding PodExec_def body by (rule PodExec_deferred_stderr [OF assms(5)])
  have suf: "suffix errText ?msg"
    unfolding suffix_def by (rule exI [of _ "?pre @ ?pre @ e @ [CHR 0x0A]"]) simp
  have se: "sublist e ?msg"
    unfolding sublist_def
    by (rule exI [of _ "?pre @ ?pre"], rule exI [of _ "[CHR 0x0A] @ errText"]) simp
  have "sublist podName ?msg" "sublist podNamespace ?msg" "sublist container ?msg"
    using sublist_exec_prefix by (auto intro: sublist_prepend)
  with run suf se show ?thesis by (auto intro: suffix_imp_sublist)
qed

theorem PodExec_error_carries_stderr_witness:
  "PodExec exec_net default_client ''httpbin'' ''default'' ''app'' ''cat /missing'' =
     ([], ''cat: /missing: No such file or directory'',
      Some (''error exec'' @ [CHR 0x27] @ ''ing into httpbin/default app container: ''
            @ ''error exec'' @ [CHR 0x27] @ ''ing into httpbin/default app container: ''
            @ ''command terminated with exit code 1'' @ [CHR 0x0A]
            @ ''cat: /missing: No such file or directory''))
   \<and> sublist ''cat: /missing: No such file or directory''
        (''error exec'' @ [CHR 0x27] @ ''ing into httpbin/default app container: ''
            @ ''error exec'' @ [CHR 0x27] @ ''ing into httpbin/default app container: ''
            @ ''command terminated with exit code 1'' @ [CHR 0x0A]
            @ ''cat: /missing: No such file or directory'')"
proof -
  have f: "Fields exec_net ''cat /missing'' = [''cat'', ''/missing'']"
    by (simp add: exec_net_def)
  have st: "Stream exec_net \<lparr>exec_podName = ''httpbin'', exec_podNamespace = ''default'',
                  exec_container = ''app'', exec_command = Fields exec_net ''cat /missing''\<rparr>
      = ([], ''cat: /missing: No such file or directory'', Some ''command terminated with exit code 1'')"
    unfolding f by (simp add: exec_net_def)
  have rt: "roundTripperFor exec_net (config default_client) = None"
    and ex: "NewSPDYExecutor exec_net rq = None" for rq
    by (simp_all add: exec_net_def)
  have ne: "''cat: /missing: No such file or directory'' \<noteq> []" by simp
  have pre: "exec_prefix ''httpbin'' ''default'' ''app''
      = ''error exec'' @ [CHR 0x27] @ ''ing into httpbin/default app container: ''"
    by (simp add: exec_prefix_def)
  show ?thesis
    using PodExec_error_carries_stderr [OF refl rt ex st ne] unfolding pre by auto
qed

section \<open>The copy made by \<open>RESTConfig\<close>\<close>

lemma RESTConfig_Done:
  "RESTConfig c h = Done (p, h') \<Longrightarrow>
   config c < length (configs h) \<and> p = length (configs h)
   \<and> h' = h\<lparr>configs := configs h @ [configs h ! config c]\<rparr>"
  by (auto simp: RESTConfig_def split: if_splits)

text \<open>After a call on \<open>heap0\<close>, the first byte of the CA data is overwritten through the
  returned pointer: the client's own configuration now reads \<open>Xbc\<close>.\<close>

theorem RESTConfig_shared_slice_counterexample:
  "RESTConfig default_client heap0 =
     Done (1, \<lparr>configs = [\<lparr>Host = ''https://10.0.0.1:6443'', CAData = \<lparr>slice_array = 0, slice_len = 3\<rparr>\<rparr>,
                          \<lparr>Host = ''https://10.0.0.1:6443'', CAData = \<lparr>slice_array = 0, slice_len = 3\<rparr>\<rparr>],
               arrays = [''abc'']\<rparr>)
   \<and> assign_CAData_index 1 0 CHR ''X''
       \<lparr>configs = [\<lparr>Host = ''https://10.0.0.1:6443'', CAData = \<lparr>slice_array = 0, slice_len = 3\<rparr>\<rparr>,
                   \<lparr>Host = ''https://10.0.0.1:6443'', CAData = \<lparr>slice_array = 0, slice_len = 3\<rparr>\<rparr>],
        arrays = [''abc'']\<rparr>
     = Done \<lparr>configs = [\<lparr>Host = ''https://10.0.0.1:6443'', CAData = \<lparr>slice_array = 0, slice_len = 3\<rparr>\<rparr>,
                        \<lparr>Host = ''https://10.0.0.1:6443'', CAData = \<lparr>slice_array = 0, slice_len = 3\<rparr>\<rparr>],
             arrays = [''Xbc'']\<rparr>
   \<and> client_config default_client heap0 = Done (''https://10.0.0.1:6443'', ''abc'')
   \<and> client_config default_client
       \<lparr>configs = [\<lparr>Host = ''https://10.0.0.1:6443'', CAData = \<lparr>slice_array = 0, slice_len = 3\<rparr>\<rparr>,
                   \<lparr>Host = ''https://10.0.0.1:6443'', CAData = \<lparr>slice_array = 0, slice_len = 3\<rparr>\<rparr>],
        arrays = [''Xbc'']\<rparr>
     = Done (''https://10.0.0.1:6443'', ''Xbc'')"
  by (simp add: RESTConfig_def assign_CAData_index_def Let_def client_config_def slice_bytes_def
      heap0_def default_client_def)

text \<open>
  C10 (as the code has it). A call of \<open>RESTConfig\<close> that returns gives the address of a
  new object: it differs from the client's own pointer and from every address
  allocated before, and the object holds a copy of the fields of the client's
  configuration, a shallow copy, whose slice has the backing array of the original.
  Assigning to a field of the returned object, also assigning a new slice to its slice
  field, leaves what the client reads through its own pointer unchanged, and a later
  call returns yet another address with the client's configuration, not what was
  assigned. Assigning an element through the slice of the returned object writes
  into the shared array: the client's configuration then reads the changed bytes.
\<close>

theorem RESTConfig_shallow_copy:
  assumes "RESTConfig c h = Done (p, h')"
  shows "p \<noteq> config c \<and> length (configs h) \<le> p \<and> p < length (configs h')
       \<and> configs h' ! p = configs h ! config c
       \<and> arrays h' = arrays h
       \<and> client_config c h' = client_config c h
       \<and> (\<exists>h2. assign_Host p v h' = Done h2 \<and> client_config c h2 = client_config c h
              \<and> (\<exists>p2 h3. RESTConfig c h2 = Done (p2, h3) \<and> p2 \<noteq> p \<and> p2 \<noteq> config c
                     \<and> configs h3 ! p2 = configs h ! config c \<and> Host (configs h3 ! p) = v))
       \<and> (\<exists>h2. assign_CAData p s h' = Done h2 \<and> client_config c h2 = client_config c h)
       \<and> (i < slice_len (CAData (configs h ! config c))
            \<and> slice_array (CAData (configs h ! config c)) < length (arrays h) \<longrightarrow>
          (\<exists>h2. assign_CAData_index p i b h' = Done h2
              \<and> client_config c h2 =
                  Done (Host (configs h ! config c),
                        take (slice_len (CAData (configs h ! config c)))
                          ((arrays h ! slice_array (CAData (configs h ! config c)))[i := b]))))"
proof -
  from RESTConfig_Done [OF assms] have in_range: "config c < length (configs h)"
    and p: "p = length (configs h)"
    and h': "h' = h\<lparr>configs := configs h @ [configs h ! config c]\<rparr>"
    by simp_all
  have fresh: "p \<noteq> config c \<and> length (configs h) \<le> p \<and> p < length (configs h')
       \<and> configs h' ! p = configs h ! config c \<and> arrays h' = arrays h"
    using in_range by (simp add: p h')
  have same: "client_config c h' = client_config c h"
    using in_range by (simp add: h' client_config_def slice_bytes_def nth_append)
  have host: "\<exists>h2. assign_Host p v h' = Done h2 \<and> client_config c h2 = client_config c h
              \<and> (\<exists>p2 h3. RESTConfig c h2 = Done (p2, h3) \<and> p2 \<noteq> p \<and> p2 \<noteq> config c
                     \<and> configs h3 ! p2 = configs h ! config c \<and> Host (configs h3 ! p) = v)"
    using in_range
    by (simp add: p h' assign_Host_def client_config_def slice_bytes_def RESTConfig_def nth_append)
  have field: "\<exists>h2. assign_CAData p s h' = Done h2 \<and> client_config c h2 = client_config c h"
    using in_range
    by (simp add: p h' assign_CAData_def client_config_def slice_bytes_def nth_append)
  have shared: "i < slice_len (CAData (configs h ! config c))
            \<and> slice_array (CAData (configs h ! config c)) < length (arrays h) \<longrightarrow>
          (\<exists>h2. assign_CAData_index p i b h' = Done h2
              \<and> client_config c h2 =
                  Done (Host (configs h ! config c),
                        take (slice_len (CAData (configs h ! config c)))
                          ((arrays h ! slice_array (CAData (configs h ! config c)))[i := b])))"
    using in_range
    by (simp add: p h' assign_CAData_index_def Let_def client_config_def slice_bytes_def nth_append)
  from fresh same host field shared show ?thesis by blast
qed

theorem RESTConfig_shallow_copy_witness:
  "RESTConfig default_client heap0 =
     Done (1, \<lparr>configs = [\<lparr>Host = ''https://10.0.0.1:6443'', CAData = \<lparr>slice_array = 0, slice_len = 3\<rparr>\<rparr>,
                          \<lparr>Host = ''https://10.0.0.1:6443'', CAData = \<lparr>slice_array = 0, slice_len = 3\<rparr>\<rparr>],
               arrays = [''abc'']\<rparr>)
   \<and> client_config default_client
       \<lparr>configs = [\<lparr>Host = ''https://10.0.0.1:6443'', CAData = \<lparr>slice_array = 0, slice_len = 3\<rparr>\<rparr>,
                   \<lparr>Host = ''https://evil.example'', CAData = \<lparr>slice_array = 0, slice_len = 3\<rparr>\<rparr>],
        arrays = [''abc'']\<rparr>
     = client_config default_client heap0
   \<and> client_config default_client
       \<lparr>configs = [\<lparr>Host = ''https://10.0.0.1:6443'', CAData = \<lparr>slice_array = 0, slice_len = 3\<rparr>\<rparr>,
                   \<lparr>Host = ''https://10.0.0.1:6443'', CAData = \<lparr>slice_array = 0, slice_len = 0\<rparr>\<rparr>],
        arrays = [''abc'']\<rparr>
     = client_config default_client heap0
   \<and> client_config default_client
       \<lparr>configs = [\<lparr>Host = ''https://10.0.0.1:6443'', CAData = \<lparr>slice_array = 0, slice_len = 3\<rparr>\<rparr>,
                   \<lparr>Host = ''https://10.0.0.1:6443'', CAData = \<lparr>slice_array = 0, slice_len = 3\<rparr>\<rparr>],
        arrays = [''Xbc'']\<rparr>
     = Done (''https://10.0.0.1:6443'', ''Xbc'')"
proof -
  let ?h1 = "\<lparr>configs = [\<lparr>Host = ''https://10.0.0.1:6443'', CAData = \<lparr>slice_array = 0, slice_len = 3\<rparr>\<rparr>,
                          \<lparr>Host = ''https://10.0.0.1:6443'', CAData = \<lparr>slice_array = 0, slice_len = 3\<rparr>\<rparr>],
               arrays = [''abc'']\<rparr>"
  have call: "RESTConfig default_client heap0 = Done (1, ?h1)"
    by (simp add: RESTConfig_def heap0_def default_client_def)
  have w1: "assign_Host 1 ''https://evil.example'' ?h1 =
      Done \<lparr>configs = [\<lparr>Host = ''https://10.0.0.1:6443'', CAData = \<lparr>slice_array = 0, slice_len = 3\<rparr>\<rparr>,
                   \<lparr>Host = ''https://evil.example'', CAData = \<lparr>slice_array = 0, slice_len = 3\<rparr>\<rparr>],
        arrays = [''abc'']\<rparr>"
    by (simp add: assign_Host_def)
  have w2: "assign_CAData 1 \<lparr>slice_array = 0, slice_len = 0\<rparr> ?h1 =
      Done \<lparr>configs = [\<lparr>Host = ''https://10.0.0.1:6443'', CAData = \<lparr>slice_array = 0, slice_len = 3\<rparr>\<rparr>,
                   \<lparr>Host = ''https://10.0.0.1:6443'', CAData = \<lparr>slice_array = 0, slice_len = 0\<rparr>\<rparr>],
        arrays = [''abc'']\<rparr>"
    by (simp add: assign_CAData_def)
  have w3: "assign_CAData_index 1 0 CHR ''X'' ?h1 =
      Done \<lparr>configs = [\<lparr>Host = ''https://10.0.0.1:6443'', CAData = \<lparr>slice_array = 0, slice_len = 3\<rparr>\<rparr>,
                   \<lparr>Host = ''https://10.0.0.1:6443'', CAData = \<lparr>slice_array = 0, slice_len = 3\<rparr>\<rparr>],
        arrays = [''Xbc'']\<rparr>"
    by (simp add: assign_CAData_index_def Let_def)
  have pre: "0 < slice_len (CAData (configs heap0 ! config default_client))
      \<and> slice_array (CAData (configs heap0 ! config default_client)) < length (arrays heap0)"
    by (simp add: heap0_def default_client_def)
  have val: "Done (Host (configs heap0 ! config default_client),
                   take (slice_len (CAData (configs heap0 ! config default_client)))
                     ((arrays heap0 ! slice_array (CAData (configs heap0 ! config default_client)))
                        [0 := CHR ''X'']))
      = Done (''https://10.0.0.1:6443'', ''Xbc'')"
    by (simp add: heap0_def default_client_def)
  show ?thesis
    using RESTConfig_shallow_copy [OF call, of "''https://evil.example''"
            "\<lparr>slice_array = 0, slice_len = 0\<rparr>" 0 "CHR ''X''"]
      call w1 w2 w3 pre val
    by auto
qed

end
